theory Spec2Isabelle
  imports Main "HOL-Library.Word"
begin

section \<open>Errors\<close>

text \<open>
  Go's \<open>error\<close> values, as the controllers produce and inspect them. A nil error is
  \<open>None\<close> of \<open>error option\<close>.
  \<^item> \<open>StatusError reason message\<close>: an error answered by the control plane
    (\<open>apierrors.StatusError\<close>); \<open>apierrors.IsAlreadyExists\<close> looks at the reason only.
  \<^item> \<open>StoreError\<close>: an error of the informer store's \<open>GetByKey\<close>.
  \<^item> \<open>Errorf m\<close>: \<open>fmt.Errorf\<close> with a literal format; \<open>m\<close> is the rendered message
    (every operand is a string or an error under \<open>%s\<close> or \<open>%v\<close>, which insert it as it is).
  \<^item> \<open>ErrorfFormat f\<close>: \<open>fmt.Errorf(msg)\<close>, where the computed string \<open>msg\<close> is used as
    the format and there is no operand; the format is kept as it is.
  \<^item> \<open>ErrWaitTimeout\<close>: \<open>wait.ErrWaitTimeout\<close>.
\<close>

datatype status_reason = StatusReasonAlreadyExists | StatusReasonNotFound | StatusReasonUnknown

datatype error =
    StatusError status_reason string
  | StoreError string
  | Errorf string
  | ErrorfFormat string
  | ErrWaitTimeout

fun IsAlreadyExists :: "error \<Rightarrow> bool" where
  "IsAlreadyExists (StatusError r m) = (r = StatusReasonAlreadyExists)"
| "IsAlreadyExists e = False"

text \<open>\<open>err.Error()\<close>. No equation is given for \<open>ErrorfFormat\<close>: nothing below depends on it.\<close>

fun Error :: "error \<Rightarrow> string" where
  "Error (StatusError r m) = m"
| "Error (StoreError m) = m"
| "Error (Errorf m) = m"
| "Error ErrWaitTimeout = ''timed out waiting for the condition''"

section \<open>Add-ons (pkg/spec/spec.go)\<close>

definition redis :: string where "redis = ''redis''"
definition memcached :: string where "memcached = ''memcached''"
definition mySQL :: string where "mySQL = ''mysql''"

record AddonSpec =
  Type :: string
  BaseImage :: string
  Version :: string
  Replicas :: "32 word"
  Port :: "32 word"
  Env :: "(string \<times> string) list"
  Args :: "string list"

record Addon =
  addonName :: string
  addonNamespace :: string
  Spec :: AddonSpec

text \<open>
  The two implementations of \<open>AddonInterface\<close> that \<open>GetApp\<close> builds, each holding the
  client, the add-on and the informer it was given.
\<close>

datatype ('c, 'i) AddonInterface =
    Redis 'c Addon 'i
  | Memcached 'c Addon 'i

text \<open>
  \<open>GetApp\<close>: a Go \<open>switch\<close> does not fall through, so the empty \<open>case mySQL\<close> leaves the
  switch and reaches the final \<open>return nil, fmt.Errorf(...)\<close>, as every unlisted type does.
\<close>

definition GetApp :: "Addon \<Rightarrow> 'c \<Rightarrow> 'i \<Rightarrow> error + ('c, 'i) AddonInterface" where
  "GetApp a c psetInf =
     (if Type (Spec a) = redis then Inr (Redis c a psetInf)
      else if Type (Spec a) = memcached then Inr (Memcached c a psetInf)
      else if Type (Spec a) = mySQL then
        Inl (Errorf (''invalid add-on type ('' @ Type (Spec a) @ '')''))
      else Inl (Errorf (''invalid add-on type ('' @ Type (Spec a) @ '')'')))"

section \<open>Strings and maps of Go\<close>

text \<open>
  \<open>strings.Split(s, sep)\<close> for a separator of one character, the only way the controllers
  call it (\<open>strings.Split(key, "/")\<close>): the pieces between the separators, one piece
  (the empty string) for the empty string.
\<close>

fun Split :: "string \<Rightarrow> char \<Rightarrow> string list" where
  "Split [] sep = [[]]"
| "Split (c # cs) sep =
     (if c = sep then [] # Split cs sep
      else (case Split cs sep of [] \<Rightarrow> [[c]] | p # ps \<Rightarrow> (c # p) # ps))"

text \<open>Reading a Go \<open>map[string]string\<close> at a key: the empty string where the key is absent.\<close>

definition mapIndex :: "(string \<rightharpoonup> string) \<Rightarrow> string \<Rightarrow> string" where
  "mapIndex m k = (case m k of None \<Rightarrow> [] | Some v \<Rightarrow> v)"

section \<open>Objects of the control plane\<close>

record ResourceRequirements =
  Requests :: "(string \<rightharpoonup> string) option"
  Limits :: "(string \<rightharpoonup> string) option"

text \<open>
  The fields of \<open>v1beta1.Deployment\<close> that the controllers read. \<open>Containers\<close> holds
  \<open>Spec.Template.Spec.Containers[i].Resources\<close>.
\<close>

record Deployment =
  dpName :: string
  dpNamespace :: string
  dpUID :: string
  dpLabels :: "string \<rightharpoonup> string"
  dpAnnotations :: "string \<rightharpoonup> string"
  dpDeletionTimestamp :: "string option"
  dpContainers :: "ResourceRequirements list"

text \<open>A storage plan: its name, its type and \<open>Spec.Storage\<close> (a quantity, as its \<open>String()\<close>).\<close>

record Plan =
  planName :: string
  planType :: string
  planStorage :: string

record OwnerReference =
  orAPIVersion :: string
  orKind :: string
  orController :: "bool option"
  orName :: string
  orUID :: string

record ServicePort =
  spName :: string
  spPort :: int
  spProtocol :: string
  spTargetPort :: int

record Service =
  svcNamespace :: string
  svcName :: string
  svcLabels :: "string \<rightharpoonup> string"
  svcOwnerReferences :: "OwnerReference list"
  svcPorts :: "ServicePort list"
  svcSelector :: "string \<rightharpoonup> string"

record HTTPIngressPath =
  ipServiceName :: string
  ipServicePort :: int
  ipPath :: string

record IngressRule =
  irHost :: string
  irPaths :: "HTTPIngressPath list"

record Ingress =
  ingNamespace :: string
  ingName :: string
  ingAnnotations :: "string \<rightharpoonup> string"
  ingLabels :: "string \<rightharpoonup> string"
  ingOwnerReferences :: "OwnerReference list"
  ingRules :: "IngressRule list"

record PersistentVolumeClaim =
  pvcName :: string
  pvcNamespace :: string
  pvcAccessModes :: "string list"
  pvcRequests :: "string \<rightharpoonup> string"

record HeadCommit =
  ID :: string
  Author :: string
  AvatarURL :: string
  Compare :: string
  Message :: string
  URL :: string

record ReleaseSpec =
  GitRemote :: string
  GitBranch :: string
  GitRepository :: string
  Commit :: HeadCommit
  AutoDeploy :: bool
  DeployName :: string
  Build :: bool
  Source :: string

record Release =
  relKind :: string
  relAPIVersion :: string
  relName :: string
  relNamespace :: string
  relLabels :: "string \<rightharpoonup> string"
  relSpec :: ReleaseSpec

record CustomResourceDefinition =
  crdName :: string
  crdGroup :: string
  crdVersion :: string
  crdScope :: string
  crdPlural :: string
  crdKind :: string

text \<open>
  A condition of a custom resource type. In Go its type and status are strings; the
  constants are those of \<open>apiextensionsv1beta1\<close>.
\<close>

record CustomResourceDefinitionCondition =
  condType :: string
  condStatus :: string
  condReason :: string

definition Established :: string where "Established = ''Established''"
definition NamesAccepted :: string where "NamesAccepted = ''NamesAccepted''"
definition ConditionTrue :: string where "ConditionTrue = ''True''"
definition ConditionFalse :: string where "ConditionFalse = ''False''"

text \<open>
  An event as the recorder is given it: the object (its kind, namespace and name), the
  type, the reason and the message. The kind is "Deployment" for a \<open>*v1beta1.Deployment\<close>
  and "Release" for a \<open>*platform.Release\<close>; "draft.Deployment" stands for the
  \<open>*draft.Deployment\<close> wrapper that line 185 hands over, which is no type of the API.
  What the recorder's sink does with an event is not part of the model.
\<close>

record Event =
  evKind :: string
  evNamespace :: string
  evName :: string
  evType :: string
  evReason :: string
  evMessage :: string

definition EventTypeWarning :: string where "EventTypeWarning = ''Warning''"
definition EventTypeNormal :: string where "EventTypeNormal = ''Normal''"

section \<open>The platform package\<close>

text \<open>
  The packages \<open>kolihub.io/koli/pkg/apis/core/v1alpha1\<close> (\<open>platform\<close>),
  \<open>.../draft\<close> and \<open>pkg/util\<close> hold the annotation keys and the predicates on
  namespaces, deployments and plans that the controllers use. They are parameters here:
  \<^item> \<open>SchemeGroupVersionString\<close> is \<open>platform.SchemeGroupVersion.String()\<close>,
  \<^item> \<open>IsValid ns\<close> is \<open>draft.NewNamespaceMetadata(ns).IsValid()\<close>,
  \<^item> \<open>Valid d\<close> is \<open>d.GetNamespaceMetadata().Valid()\<close>,
  \<^item> \<open>GetStoragePlan d\<close> is \<open>d.GetStoragePlan().Value()\<close> (\<open>None\<close> when the second
    result is false),
  \<^item> \<open>HasSetupPVCAnnotation d\<close> and \<open>IsStorageType p\<close> are the methods of these names,
  \<^item> \<open>NewShaShort s\<close> is \<open>Short()\<close> of the first result of \<open>koliutil.NewSha(s)\<close>
    (\<open>None\<close> when that result is nil).
\<close>

record platform =
  AnnotationSetupStorage :: string
  AnnotationBuild :: string
  AnnotationApp :: string
  AnnotationAutoDeploy :: string
  AnnotationBuildSource :: string
  AnnotationGitRemote :: string
  AnnotationGitBranch :: string
  AnnotationGitRepository :: string
  AnnotationGitRevision :: string
  AnnotationGitCommitID :: string
  AnnotationGitAuthorName :: string
  AnnotationGitAuthorAvatar :: string
  AnnotationGitCompare :: string
  AnnotationGitCommitMessage :: string
  AnnotationGitCommitURL :: string
  SystemNamespace :: string
  SchemeGroup :: string
  SchemeVersion :: string
  SchemeGroupVersionString :: string
  PlanResourceName :: string
  PlanResourceKind :: string
  PlanResourcePlural :: string
  ReleaseResourceName :: string
  ReleaseResourceKind :: string
  ReleaseResourcePlural :: string
  IsValid :: "string \<Rightarrow> bool"
  Valid :: "Deployment \<Rightarrow> bool"
  GetStoragePlan :: "Deployment \<Rightarrow> string option"
  HasSetupPVCAnnotation :: "Deployment \<Rightarrow> bool"
  IsStorageType :: "Plan \<Rightarrow> bool"
  NewShaShort :: "string \<Rightarrow> string option"

section \<open>The control plane, as the clients see it\<close>

datatype PatchType = MergePatchType | StrategicMergePatchType

text \<open>The calls the controllers make on their clients.\<close>

datatype action =
    CreateService Service
  | CreateIngress Ingress
  | CreatePersistentVolumeClaim PersistentVolumeClaim
  | PatchDeployment string string PatchType string
  | DeleteCollectionPods string string
  | CreateRelease Release
  | CreateCustomResourceDefinition CustomResourceDefinition
  | GetCustomResourceDefinition string

datatype severity = INFO | INFO_V nat | WARNING | ERROR

text \<open>
  The state that a sync works on: what the clients, the event recorder, glog and the
  metrics hold.
  \<^item> \<open>actions\<close> is every call made so far, in order.
  \<^item> \<open>reactor n a\<close> is the failure of call \<open>a\<close> when \<open>n\<close> calls were made before it,
    \<open>None\<close> when the control plane handles the call itself. So any call can fail, with
    any error, at any time.
  \<^item> \<open>services\<close>, \<open>ingresses\<close>, \<open>pvcs\<close>, \<open>releases\<close> and \<open>crds\<close> are the stored objects.
    A create of a namespace and name that are stored already is answered with an
    "already exists" error and stores nothing; any other create stores the object.
  \<^item> \<open>crdConditions name n\<close> is the condition list of the custom resource type \<open>name\<close>
    that a read returns when \<open>n\<close> calls were made before it (the control plane
    establishes a type on its own, while the provisioner polls).
  \<^item> A patch and a delete-collection are recorded in \<open>actions\<close>; the deployments and
    pods themselves are not part of the state.
  \<^item> \<open>logs\<close> is what glog was given, with \<open>INFO_V n\<close> for \<open>glog.V(n).Infof\<close>.
\<close>

record world =
  reactor :: "nat \<Rightarrow> action \<Rightarrow> error option"
  actions :: "action list"
  services :: "Service list"
  ingresses :: "Ingress list"
  pvcs :: "PersistentVolumeClaim list"
  releases :: "Release list"
  crds :: "CustomResourceDefinition list"
  crdConditions :: "string \<Rightarrow> nat \<Rightarrow> CustomResourceDefinitionCondition list"
  events :: "Event list"
  logs :: "(severity \<times> string) list"
  pvcCreated :: nat
  pvcFailed :: nat

definition glog :: "severity \<Rightarrow> string \<Rightarrow> world \<Rightarrow> world" where
  "glog s m w = w\<lparr>logs := logs w @ [(s, m)]\<rparr>"

definition recorderEvent :: "string \<Rightarrow> string \<Rightarrow> string \<Rightarrow> string \<Rightarrow> string \<Rightarrow> string \<Rightarrow> world \<Rightarrow> world" where
  "recorderEvent kind ns name typ reason msg w =
     w\<lparr>events := events w @ [\<lparr>evKind = kind, evNamespace = ns, evName = name,
                               evType = typ, evReason = reason, evMessage = msg\<rparr>]\<rparr>"

definition react :: "action \<Rightarrow> world \<Rightarrow> error option" where
  "react a w = reactor w (length (actions w)) a"

definition called :: "action \<Rightarrow> world \<Rightarrow> world" where
  "called a w = w\<lparr>actions := actions w @ [a]\<rparr>"

definition alreadyExists :: "string \<Rightarrow> string \<Rightarrow> error" where
  \<open>alreadyExists resource name =
     StatusError StatusReasonAlreadyExists (resource @ '' "'' @ name @ ''" already exists'')\<close>

definition ServicesCreate :: "Service \<Rightarrow> world \<Rightarrow> error option \<times> world" where
  "ServicesCreate svc w =
     (case react (CreateService svc) w of
        Some e \<Rightarrow> (Some e, called (CreateService svc) w)
      | None \<Rightarrow>
          if \<exists>s \<in> set (services w). svcNamespace s = svcNamespace svc \<and> svcName s = svcName svc
          then (Some (alreadyExists ''services'' (svcName svc)), called (CreateService svc) w)
          else (None, called (CreateService svc) (w\<lparr>services := services w @ [svc]\<rparr>)))"

definition IngressesCreate :: "Ingress \<Rightarrow> world \<Rightarrow> error option \<times> world" where
  "IngressesCreate ing w =
     (case react (CreateIngress ing) w of
        Some e \<Rightarrow> (Some e, called (CreateIngress ing) w)
      | None \<Rightarrow>
          if \<exists>i \<in> set (ingresses w). ingNamespace i = ingNamespace ing \<and> ingName i = ingName ing
          then (Some (alreadyExists ''ingresses'' (ingName ing)), called (CreateIngress ing) w)
          else (None, called (CreateIngress ing) (w\<lparr>ingresses := ingresses w @ [ing]\<rparr>)))"

definition PersistentVolumeClaimsCreate :: "PersistentVolumeClaim \<Rightarrow> world \<Rightarrow> error option \<times> world" where
  "PersistentVolumeClaimsCreate pvc w =
     (case react (CreatePersistentVolumeClaim pvc) w of
        Some e \<Rightarrow> (Some e, called (CreatePersistentVolumeClaim pvc) w)
      | None \<Rightarrow>
          if \<exists>p \<in> set (pvcs w). pvcNamespace p = pvcNamespace pvc \<and> pvcName p = pvcName pvc
          then (Some (alreadyExists ''persistentvolumeclaims'' (pvcName pvc)),
                called (CreatePersistentVolumeClaim pvc) w)
          else (None, called (CreatePersistentVolumeClaim pvc) (w\<lparr>pvcs := pvcs w @ [pvc]\<rparr>)))"

definition ReleaseCreate :: "Release \<Rightarrow> world \<Rightarrow> error option \<times> world" where
  "ReleaseCreate rel w =
     (case react (CreateRelease rel) w of
        Some e \<Rightarrow> (Some e, called (CreateRelease rel) w)
      | None \<Rightarrow>
          if \<exists>r \<in> set (releases w). relNamespace r = relNamespace rel \<and> relName r = relName rel
          then (Some (alreadyExists ''releases'' (relName rel)), called (CreateRelease rel) w)
          else (None, called (CreateRelease rel) (w\<lparr>releases := releases w @ [rel]\<rparr>)))"

definition CustomResourceDefinitionsCreate :: "CustomResourceDefinition \<Rightarrow> world \<Rightarrow> error option \<times> world" where
  "CustomResourceDefinitionsCreate crd w =
     (case react (CreateCustomResourceDefinition crd) w of
        Some e \<Rightarrow> (Some e, called (CreateCustomResourceDefinition crd) w)
      | None \<Rightarrow>
          if \<exists>c \<in> set (crds w). crdName c = crdName crd
          then (Some (alreadyExists ''customresourcedefinitions'' (crdName crd)),
                called (CreateCustomResourceDefinition crd) w)
          else (None, called (CreateCustomResourceDefinition crd) (w\<lparr>crds := crds w @ [crd]\<rparr>)))"

text \<open>
  Reading a custom resource type: the injected failure if there is one, "not found" for a
  type that is not stored, else the type's conditions at this moment.
\<close>

definition CustomResourceDefinitionsGet ::
  "string \<Rightarrow> world \<Rightarrow> (error + CustomResourceDefinitionCondition list) \<times> world" where
  \<open>CustomResourceDefinitionsGet name w =
     (case react (GetCustomResourceDefinition name) w of
        Some e \<Rightarrow> (Inl e, called (GetCustomResourceDefinition name) w)
      | None \<Rightarrow>
          if \<exists>c \<in> set (crds w). crdName c = name
          then (Inr (crdConditions w name (length (actions w))),
                called (GetCustomResourceDefinition name) w)
          else (Inl (StatusError StatusReasonNotFound
                       (''customresourcedefinitions "'' @ name @ ''" not found'')),
                called (GetCustomResourceDefinition name) w))\<close>

definition DeploymentsPatch :: "string \<Rightarrow> string \<Rightarrow> PatchType \<Rightarrow> string \<Rightarrow> world \<Rightarrow> error option \<times> world" where
  "DeploymentsPatch ns name pt data w =
     (react (PatchDeployment ns name pt data) w, called (PatchDeployment ns name pt data) w)"

definition PodsDeleteCollection :: "string \<Rightarrow> string \<Rightarrow> world \<Rightarrow> error option \<times> world" where
  "PodsDeleteCollection ns labelSelector w =
     (react (DeleteCollectionPods ns labelSelector) w, called (DeleteCollectionPods ns labelSelector) w)"

section \<open>The application and storage controller (pkg/controller/appmanager.go)\<close>

text \<open>
  The controller's own fields: \<open>dpInf key\<close> is \<open>dpInf.GetStore().GetByKey(key)\<close> (an
  error, or the cached deployment if there is one), \<open>planInf\<close> is what
  \<open>cache.ListAll(planInf.GetStore(), labels.Everything(), ...)\<close> visits, in order.
\<close>

record AppManagerController =
  dpInf :: "string \<Rightarrow> error + Deployment option"
  planInf :: "Plan list"
  defaultDomain :: string

definition newPVC :: "Deployment \<Rightarrow> Plan \<Rightarrow> PersistentVolumeClaim" where
  "newPVC d plan =
     \<lparr>pvcName = ''d-'' @ dpName d,
      pvcNamespace = dpNamespace d,
      pvcAccessModes = [''ReadWriteOnce''],
      pvcRequests = [''storage'' \<mapsto> planStorage plan]\<rparr>"

definition cleanBuilds :: "platform \<Rightarrow> string \<Rightarrow> string \<Rightarrow> world \<Rightarrow> error option \<times> world" where
  "cleanBuilds P ns appName w =
     (if \<not> IsValid P ns then (None, w)
      else PodsDeleteCollection ns (AnnotationApp P @ ''='' @ appName) w)"

text \<open>The service and the ingress that \<open>addDefaultRoute\<close> builds for a deployment.\<close>

definition routeOwnerRefs :: "Deployment \<Rightarrow> OwnerReference list" where
  "routeOwnerRefs d =
     [\<lparr>orAPIVersion = ''extensions/v1beta1'', orKind = ''Deployment'',
       orController = Some True, orName = dpName d, orUID = dpUID d\<rparr>]"

definition routeService :: "Deployment \<Rightarrow> Service" where
  "routeService d =
     \<lparr>svcNamespace = dpNamespace d, svcName = dpName d,
      svcLabels = [''kolihub.io/type'' \<mapsto> ''app''],
      svcOwnerReferences = routeOwnerRefs d,
      svcPorts = [\<lparr>spName = ''http'', spPort = 80, spProtocol = ''TCP'', spTargetPort = 5000\<rparr>],
      svcSelector = [''kolihub.io/name'' \<mapsto> dpName d, ''kolihub.io/type'' \<mapsto> ''app'']\<rparr>"

definition routeIngress :: "platform \<Rightarrow> AppManagerController \<Rightarrow> Deployment \<Rightarrow> Ingress" where
  "routeIngress P c d =
     \<lparr>ingNamespace = dpNamespace d, ingName = dpName d,
      ingAnnotations = [''kolihub.io/parent'' \<mapsto> SystemNamespace P],
      ingLabels = [''kolihub.io/type'' \<mapsto> ''app''],
      ingOwnerReferences = routeOwnerRefs d,
      ingRules = [\<lparr>irHost = dpName d @ ''-'' @ dpNamespace d @ ''.'' @ defaultDomain c,
                   irPaths = [\<lparr>ipServiceName = dpName d, ipServicePort = 80,
                                ipPath = ''/''\<rparr>]\<rparr>]\<rparr>"

definition addDefaultRoute ::
  "platform \<Rightarrow> AppManagerController \<Rightarrow> Deployment \<Rightarrow> world \<Rightarrow> error option \<times> world" where
  "addDefaultRoute P c d w =
     (if length (defaultDomain c) = 0 \<or> mapIndex (dpLabels d) ''kolihub.io/type'' \<noteq> ''app''
      then (None, w)
      else
        (case ServicesCreate (routeService d) w of
           (err, w1) \<Rightarrow>
             if err \<noteq> None \<and> \<not> IsAlreadyExists (the err) then (err, w1)
             else IngressesCreate (routeIngress P c d) w1))"

text \<open>
  The loop over the plan cache in \<open>syncHandler\<close>: every plan of the given name that is of
  the storage type is assigned to \<open>plan\<close> in turn, so the last one stays; nil if there is none.
\<close>

definition findPlan :: "platform \<Rightarrow> Plan list \<Rightarrow> string \<Rightarrow> Plan option" where
  "findPlan P plans name =
     foldl (\<lambda>plan p. if planName p = name \<and> IsStorageType P p then Some p else plan) None plans"

text \<open>The patch that \<open>AppManagerController.syncHandler\<close> sends after the claim.\<close>

definition setupStoragePatch :: "platform \<Rightarrow> string" where
  \<open>setupStoragePatch P =
     ''{"metadata": {"annotations": {"'' @ AnnotationSetupStorage P @ ''": "false"}}}''\<close>

text \<open>
  The text of a merge patch that sets one annotation, as both controllers write it:
  \<open>{"metadata": {"annotations": {"<key>": "<value>"}}}\<close>.
\<close>

definition annotationPatch :: "string \<Rightarrow> string \<Rightarrow> string" where
  \<open>annotationPatch k v = ''{"metadata": {"annotations": {"'' @ k @ ''": "'' @ v @ ''"}}}''\<close>

text \<open>
  Modelled from the spec: the control plane's handling of a patch is not in the source.
  Section 6 describes the payloads as minimal merge patches toggling exactly one metadata
  marker: the deployment after the patch \<open>annotationPatch k v\<close> has the annotation \<open>k\<close>
  set to \<open>v\<close> and is otherwise unchanged.
\<close>

definition mergeAnnotation :: "string \<Rightarrow> string \<Rightarrow> Deployment \<Rightarrow> Deployment" where
  "mergeAnnotation k v d = d\<lparr>dpAnnotations := (dpAnnotations d)(k \<mapsto> v)\<rparr>"

text \<open>
  Modelled from the spec: \<open>HasSetupPVCAnnotation\<close> of the draft package is not in the
  source. Section 6 says that the markers are plain string annotations of the source
  object and that an absent value or one other than "true" is read as unset.
\<close>

definition specHasSetupPVCAnnotation :: "platform \<Rightarrow> Deployment \<Rightarrow> bool" where
  "specHasSetupPVCAnnotation P d = (mapIndex (dpAnnotations d) (AnnotationSetupStorage P) = ''true'')"

text \<open>
  \<open>syncHandler\<close>, lines 153 to 162: the default route, whose failure is only logged, and
  the warning on a first container without resource requests or limits.
\<close>

definition routeAndResources ::
  "platform \<Rightarrow> AppManagerController \<Rightarrow> string \<Rightarrow> Deployment \<Rightarrow> world \<Rightarrow> world" where
  \<open>routeAndResources P c key d w =
     (let w1 = (case addDefaultRoute P c d w of
                  (err, w') \<Rightarrow>
                    if err \<noteq> None \<and> \<not> IsAlreadyExists (the err)
                    then glog WARNING
                           (key @ '' - failed adding default routes ['' @ Error (the err) @ '']'') w'
                    else w')
      in if length (dpContainers d) > 0
            \<and> (Requests (dpContainers d ! 0) = None \<or> Limits (dpContainers d ! 0) = None)
         then glog WARNING (key @ '' - deployment has empty 'limits' or 'requests' resources'') w1
         else w1)\<close>

text \<open>
  \<open>syncHandler\<close>, lines 181 to 199: the claim is created for the plan that was found, and
  the deployment is patched.
\<close>

definition provisionStorage ::
  "platform \<Rightarrow> string \<Rightarrow> Deployment \<Rightarrow> Plan \<Rightarrow> world \<Rightarrow> error option \<times> world" where
  \<open>provisionStorage P key d plan w =
     (case PersistentVolumeClaimsCreate (newPVC d plan) w of
        (err, w1) \<Rightarrow>
          if err \<noteq> None \<and> \<not> IsAlreadyExists (the err) then
            (Some (ErrorfFormat (''Failed creating PVC ['' @ Error (the err) @ '']'')),
             recorderEvent ''draft.Deployment'' (dpNamespace d) (dpName d) EventTypeWarning
               ''ProvisionError'' (''Failed creating PVC ['' @ Error (the err) @ '']'')
               (w1\<lparr>pvcFailed := pvcFailed w1 + 1\<rparr>))
          else
            (case DeploymentsPatch (dpNamespace d) (dpName d) MergePatchType (setupStoragePatch P)
                    (glog INFO (key @ '' - PVC "d-'' @ dpName d @ ''" created with "''
                                @ planStorage plan @ ''"'')
                       (if err = None then w1\<lparr>pvcCreated := pvcCreated w1 + 1\<rparr> else w1)) of
               (Some perr, w2) \<Rightarrow>
                 (Some (Errorf (key @ '' - failed updating deployment ['' @ Error perr @ '']'')), w2)
             | (None, w2) \<Rightarrow> (None, w2)))\<close>

definition AppManagerController_syncHandler ::
  "platform \<Rightarrow> AppManagerController \<Rightarrow> string \<Rightarrow> world \<Rightarrow> error option \<times> world" where
  \<open>AppManagerController_syncHandler P c key w =
     (case dpInf c key of
        Inl err \<Rightarrow>
          (Some err,
           glog WARNING (key @ '' - failed retrieving object from store ['' @ Error err @ '']'') w)
      | Inr None \<Rightarrow>
          (let w1 = glog (INFO_V 3) (key @ '' - the deployment doesn't exists'') w;
               parts = Split key (CHR ''/'')
           in if length parts = 2 then
                (case cleanBuilds P (parts ! 0) (parts ! 1)
                        (glog INFO (key @ '' - removing orphan slugbuilds'') w1) of
                   (Some err, w2) \<Rightarrow>
                     (None, glog WARNING (key @ '' - failed removing orphan slugbuilds'') w2)
                 | (None, w2) \<Rightarrow> (None, w2))
              else (None, w1))
      | Inr (Some d) \<Rightarrow>
          if dpDeletionTimestamp d \<noteq> None then
            (None, glog (INFO_V 3) (key @ '' - object marked for deletion'') w)
          else if \<not> Valid P d then
            (None, glog (INFO_V 3) (key @ '' - it's not a valid resource'') w)
          else
            (let w1 = routeAndResources P c key d w
             in if GetStoragePlan P d = None \<or> \<not> HasSetupPVCAnnotation P d then
                  (None, glog (INFO_V 3)
                     (key @ '' - the object doesn't have a storage plan or an annotation to setup a PVC'')
                     w1)
                else
                  (case findPlan P (planInf c) (the (GetStoragePlan P d)) of
                     None \<Rightarrow>
                       (Some (ErrorfFormat (''Storage Plan "'' @ the (GetStoragePlan P d)
                                            @ ''" not found'')),
                        recorderEvent ''Deployment'' (dpNamespace d) (dpName d) EventTypeWarning
                          ''PlanNotFound''
                          (''Storage Plan "'' @ the (GetStoragePlan P d) @ ''" not found'') w1)
                   | Some plan \<Rightarrow> provisionStorage P key d plan w1)))\<close>

section \<open>The release controller\<close>

record ReleaseController =
  releaseDpInf :: "string \<Rightarrow> error + Deployment option"

text \<open>The keys required in a deployment's annotations for creating a new release.\<close>

definition requiredKeys :: "platform \<Rightarrow> string list" where
  "requiredKeys P = [AnnotationGitRemote P]"

text \<open>
  \<open>validateRequiredKeys\<close>: the loop returns at the first required key that is not a key of
  the annotations (the \<open>ok\<close> of the map read), whatever the value of the others.
\<close>

fun validateKeys :: "(string \<rightharpoonup> string) \<Rightarrow> string list \<Rightarrow> error option" where
  "validateKeys ann [] = None"
| "validateKeys ann (key # keys) =
     (if ann key = None
      then Some (Errorf (''Missing required key '' @ [CHR 0x27] @ key @ [CHR 0x27]))
      else validateKeys ann keys)"

definition validateRequiredKeys :: "platform \<Rightarrow> Deployment \<Rightarrow> error option" where
  "validateRequiredKeys P dp = validateKeys (dpAnnotations dp) (requiredKeys P)"

definition activateBuildPayload :: "platform \<Rightarrow> bool \<Rightarrow> string" where
  \<open>activateBuildPayload P activate =
     ''{"metadata": {"annotations": {"'' @ AnnotationBuild P @ ''": "''
       @ (if activate then ''true'' else ''false'') @ ''"}}}''\<close>

text \<open>The release that \<open>ReleaseController.syncHandler\<close> builds from a deployment.\<close>

definition newRelease :: "platform \<Rightarrow> Deployment \<Rightarrow> Release" where
  "newRelease P dp =
     (let release =
            \<lparr>relKind = ''Release'',
             relAPIVersion = SchemeGroupVersionString P,
             relName = dpName dp,
             relNamespace = dpNamespace dp,
             relLabels = [''kolihub.io/deploy'' \<mapsto> dpName dp],
             relSpec =
               \<lparr>GitRemote = mapIndex (dpAnnotations dp) (AnnotationGitRemote P),
                GitBranch = mapIndex (dpAnnotations dp) (AnnotationGitBranch P),
                GitRepository = mapIndex (dpAnnotations dp) (AnnotationGitRepository P),
                Commit =
                  \<lparr>ID = mapIndex (dpAnnotations dp) (AnnotationGitCommitID P),
                   Author = mapIndex (dpAnnotations dp) (AnnotationGitAuthorName P),
                   AvatarURL = mapIndex (dpAnnotations dp) (AnnotationGitAuthorAvatar P),
                   Compare = mapIndex (dpAnnotations dp) (AnnotationGitCompare P),
                   Message = mapIndex (dpAnnotations dp) (AnnotationGitCommitMessage P),
                   URL = mapIndex (dpAnnotations dp) (AnnotationGitCommitURL P)\<rparr>,
                AutoDeploy = (mapIndex (dpAnnotations dp) (AnnotationAutoDeploy P) = ''true''),
                DeployName = dpName dp,
                Build = True,
                Source = mapIndex (dpAnnotations dp) (AnnotationBuildSource P)\<rparr>\<rparr>
      in case NewShaShort P (mapIndex (dpAnnotations dp) (AnnotationGitCommitID P)) of
           Some short \<Rightarrow> release\<lparr>relLabels := (relLabels release)(AnnotationGitRevision P \<mapsto> short)\<rparr>
         | None \<Rightarrow> release)"

text \<open>
  \<open>syncHandler\<close>, lines 491 to 512: the release is created, a created release is reported,
  and the build is switched off on the deployment.
\<close>

definition createAndDeactivate ::
  "platform \<Rightarrow> string \<Rightarrow> Deployment \<Rightarrow> Release \<Rightarrow> world \<Rightarrow> error option \<times> world" where
  \<open>createAndDeactivate P key dp release w =
     (case ReleaseCreate release w of
        (err, w1) \<Rightarrow>
          if err \<noteq> None \<and> \<not> IsAlreadyExists (the err) then
            (Some (Errorf (''failed creating new release: '' @ Error (the err))), w1)
          else
            (let ref = (if length (ID (Commit (relSpec release))) = 0
                        then GitBranch (relSpec release)
                        else ID (Commit (relSpec release)));
                 w2 = (if err = None then
                         glog INFO (key @ '' - new release created '' @ [CHR 0x27]
                                    @ relName release @ [CHR 0x27])
                           (recorderEvent ''Release'' (relNamespace release) (relName release)
                              EventTypeNormal ''Created''
                              (''Created release with revision '' @ [CHR 0x27] @ ref
                               @ [CHR 0x27] @ '' from '' @ [CHR 0x27]
                               @ Source (relSpec release) @ [CHR 0x27]) w1)
                       else w1)
             in case DeploymentsPatch (dpNamespace dp) (dpName dp) StrategicMergePatchType
                       (activateBuildPayload P False) w2 of
                  (Some perr, w3) \<Rightarrow>
                    (None, glog WARNING
                       (key @ '' - failed deactivating build from deployment [''
                        @ Error perr @ '']'') w3)
                | (None, w3) \<Rightarrow> (None, w3)))\<close>

text \<open>
  \<open>syncHandler\<close>, lines 447 to 452: the world in which the release is created; only
  the log line on the auto-deploy marker is new.
\<close>

definition beforeCreate :: "platform \<Rightarrow> string \<Rightarrow> Deployment \<Rightarrow> world \<Rightarrow> world" where
  "beforeCreate P key dp w =
     (if mapIndex (dpAnnotations dp) (AnnotationAutoDeploy P) = ''true''
      then glog (INFO_V 2) (key @ '' - autodeploy turned on.'') w else w)"

definition ReleaseController_syncHandler ::
  "platform \<Rightarrow> ReleaseController \<Rightarrow> string \<Rightarrow> world \<Rightarrow> error option \<times> world" where
  \<open>ReleaseController_syncHandler P r key w =
     (case releaseDpInf r key of
        Inl err \<Rightarrow> (Some err, w)
      | Inr None \<Rightarrow> (None, glog (INFO_V 2) (key @ '' - release doesn't exists'') w)
      | Inr (Some dp) \<Rightarrow>
          if \<not> IsValid P (dpNamespace dp) then
            (None, glog (INFO_V 2) (key @ '' - noop, it's not a valid namespace'') w)
          else if mapIndex (dpAnnotations dp) ''kolihub.io/build'' \<noteq> ''true'' then
            (None, glog (INFO_V 4) (key @ '' - noop, isn't a build action'') w)
          else
            (case validateRequiredKeys P dp of
               Some err \<Rightarrow>
                 (Some (Errorf (''ValidateRequiredKeys ['' @ Error err @ '']'')),
                  recorderEvent ''Deployment'' (dpNamespace dp) (dpName dp) EventTypeWarning
                    ''MissingAnnotationKey'' (Error err) w)
             | None \<Rightarrow>
                 createAndDeactivate P key dp (newRelease P dp) (beforeCreate P key dp w)))\<close>

section \<open>The work queue of client-go\<close>

text \<open>
  \<open>workqueue.NewNamedRateLimitingQueue(workqueue.DefaultControllerRateLimiter(), name)\<close>,
  as \<open>NewTaskQueue\<close> builds it. The items are the string keys that \<open>TaskQueue.Add\<close> puts in.
  \<^item> \<open>items\<close> is the queue, \<open>dirty\<close> and \<open>processing\<close> are its two sets.
  \<^item> \<open>failures\<close> is the map of the \<open>ItemExponentialFailureRateLimiter\<close> (base delay
    5 ms, maximal delay 1000 s).
  \<^item> \<open>bucket n\<close> is the delay that the token bucket (10 per second, burst 100) gives
    to its reservation number \<open>n\<close>, and \<open>reservations\<close> counts them: the bucket depends on
    the time of the calls, which is not part of the state.
  \<^item> \<open>waitingForAdd\<close> holds the items given to \<open>AddAfter\<close> with a positive delay (in
    nanoseconds), which the queue adds once the delay has passed.
\<close>

record workqueue =
  items :: "string list"
  dirty :: "string set"
  processing :: "string set"
  shuttingDown :: bool
  failures :: "string \<rightharpoonup> nat"
  bucket :: "nat \<Rightarrow> nat"
  reservations :: nat
  waitingForAdd :: "(string \<times> nat) list"

definition Millisecond :: nat where "Millisecond = 1000000"
definition Second :: nat where "Second = 1000000000"
definition MaxInt64 :: nat where "MaxInt64 = 9223372036854775807"

definition Add :: "string \<Rightarrow> workqueue \<Rightarrow> workqueue" where
  "Add item q =
     (if shuttingDown q then q
      else if item \<in> dirty q then q
      else if item \<in> processing q then q\<lparr>dirty := insert item (dirty q)\<rparr>
      else q\<lparr>dirty := insert item (dirty q), items := items q @ [item]\<rparr>)"

text \<open>
  \<open>Get\<close> waits while the queue is empty and not shutting down: \<open>None\<close>. Else it returns
  the item (nil when the queue is empty) and the shutdown flag.
\<close>

definition Get :: "workqueue \<Rightarrow> (string option \<times> bool \<times> workqueue) option" where
  "Get q =
     (case items q of
        [] \<Rightarrow> if \<not> shuttingDown q then None else Some (None, True, q)
      | item # rest \<Rightarrow>
          Some (Some item, False,
                q\<lparr>items := rest, processing := insert item (processing q),
                  dirty := dirty q - {item}\<rparr>))"

definition Done :: "string \<Rightarrow> workqueue \<Rightarrow> workqueue" where
  "Done item q =
     (if item \<in> dirty q
      then q\<lparr>processing := processing q - {item}, items := items q @ [item]\<rparr>
      else q\<lparr>processing := processing q - {item}\<rparr>)"

text \<open>\<open>ItemExponentialFailureRateLimiter.When\<close>, without the update of \<open>failures\<close>.\<close>

definition backoffDelay :: "nat \<Rightarrow> nat \<Rightarrow> nat \<Rightarrow> nat" where
  "backoffDelay baseDelay maxDelay exp =
     (if baseDelay * 2 ^ exp > MaxInt64 then maxDelay
      else if baseDelay * 2 ^ exp > maxDelay then maxDelay
      else baseDelay * 2 ^ exp)"

definition NumRequeues :: "string \<Rightarrow> workqueue \<Rightarrow> nat" where
  "NumRequeues item q = (case failures q item of None \<Rightarrow> 0 | Some n \<Rightarrow> n)"

text \<open>\<open>MaxOfRateLimiter.When\<close>: the larger of the two delays; both limiters are updated.\<close>

definition When :: "string \<Rightarrow> workqueue \<Rightarrow> nat \<times> workqueue" where
  "When item q =
     (max (backoffDelay (5 * Millisecond) (1000 * Second) (NumRequeues item q))
          (bucket q (reservations q)),
      q\<lparr>failures := (failures q)(item \<mapsto> NumRequeues item q + 1),
        reservations := reservations q + 1\<rparr>)"

definition Forget :: "string \<Rightarrow> workqueue \<Rightarrow> workqueue" where
  "Forget item q = q\<lparr>failures := (failures q)(item := None)\<rparr>"

definition AddAfter :: "string \<Rightarrow> nat \<Rightarrow> workqueue \<Rightarrow> workqueue" where
  "AddAfter item duration q =
     (if shuttingDown q then q
      else if duration \<le> 0 then Add item q
      else q\<lparr>waitingForAdd := waitingForAdd q @ [(item, duration)]\<rparr>)"

definition AddRateLimited :: "string \<Rightarrow> workqueue \<Rightarrow> workqueue" where
  "AddRateLimited item q = (case When item q of (duration, q') \<Rightarrow> AddAfter item duration q')"

section \<open>The task queue\<close>

text \<open>
  \<open>TaskQueue\<close>: the work queue, the sync function and the channel \<open>workerDone\<close> (true once
  it is closed). A sync function is one of the two \<open>syncHandler\<close>s above: it works on the
  world and returns an error or nil.
\<close>

record TaskQueue =
  queue :: workqueue
  sync :: "string \<Rightarrow> world \<Rightarrow> error option \<times> world"
  workerDone :: bool

text \<open>
  What a call does: it waits for ever (\<open>Blocks\<close>), it panics, or it returns.
\<close>

datatype 'a outcome = Blocks | Panics string | Returns 'a

text \<open>
  \<open>processNextWorkItem\<close>. Closing \<open>workerDone\<close> a second time is Go's panic
  "close of closed channel". A nil item with no shutdown returns without \<open>Done\<close>.
\<close>

definition processNextWorkItem :: "TaskQueue \<Rightarrow> world \<Rightarrow> (TaskQueue \<times> world) outcome" where
  "processNextWorkItem t w =
     (case Get (queue t) of
        None \<Rightarrow> Blocks
      | Some (key, quit, q) \<Rightarrow>
          if quit then
            (if workerDone t then Panics ''close of closed channel''
             else Returns (t\<lparr>queue := q, workerDone := True\<rparr>, w))
          else
            (case key of
               None \<Rightarrow> Returns (t\<lparr>queue := q\<rparr>, w)
             | Some k \<Rightarrow>
                 (case sync t k (glog (INFO_V 3) (''Syncing '' @ k) w) of
                    (Some err, w') \<Rightarrow>
                      Returns (t\<lparr>queue := Done k (AddRateLimited k q)\<rparr>,
                               glog ERROR (''Requeuing '' @ k @ '', err: '' @ Error err) w')
                  | (None, w') \<Rightarrow>
                      Returns (t\<lparr>queue := Done k (Forget k q)\<rparr>, w'))))"

section \<open>Provisioning the custom resource types\<close>

text \<open>
  The loop over \<open>crd.Status.Conditions\<close> in \<open>waitCRDReady\<close>: the first condition that is
  Established with status True ends it with \<open>true, nil\<close>, the first that is NamesAccepted
  with status False ends it with the name conflict; a list with neither gives \<open>false, nil\<close>.
\<close>

fun checkConditions :: "CustomResourceDefinitionCondition list \<Rightarrow> error + bool" where
  "checkConditions [] = Inr False"
| "checkConditions (cond # conds) =
     (if condType cond = Established then
        (if condStatus cond = ConditionTrue then Inr True else checkConditions conds)
      else if condType cond = NamesAccepted then
        (if condStatus cond = ConditionFalse
         then Inl (Errorf (''Name conflict: '' @ condReason cond))
         else checkConditions conds)
      else checkConditions conds)"

text \<open>The condition function that \<open>waitCRDReady\<close> gives to \<open>wait.Poll\<close>.\<close>

definition crdReady :: "string \<Rightarrow> world \<Rightarrow> (error + bool) \<times> world" where
  "crdReady resourceName w =
     (case CustomResourceDefinitionsGet resourceName w of
        (Inl err, w') \<Rightarrow> (Inl err, w')
      | (Inr conds, w') \<Rightarrow> (checkConditions conds, w'))"

text \<open>
  \<open>wait.WaitFor\<close>, the loop of \<open>wait.Poll\<close>: at each signal of the poller it runs the
  condition and returns its error, or nil if it holds; when the poller has stopped,
  \<open>ErrWaitTimeout\<close>. The first argument is the number of runs that are left.
\<close>

fun WaitFor :: "nat \<Rightarrow> (world \<Rightarrow> (error + bool) \<times> world) \<Rightarrow> world \<Rightarrow> error option \<times> world" where
  "WaitFor 0 fn w = (Some ErrWaitTimeout, w)"
| "WaitFor (Suc n) fn w =
     (case fn w of
        (Inl err, w') \<Rightarrow> (Some err, w')
      | (Inr ok, w') \<Rightarrow> if ok then (None, w') else WaitFor n fn w')"

text \<open>
  \<open>wait.Poll(interval, timeout, condition)\<close>. The poller signals once per interval and the
  loop runs the condition a last time when the timeout closes the channel, so the
  condition runs at least once and at most \<open>timeout div interval + 1\<close> times. How many of
  these signals the loop takes depends on the time its reads need: \<open>runs\<close> is that number,
  given from outside.
\<close>

definition Poll ::
  "nat \<Rightarrow> nat \<Rightarrow> nat \<Rightarrow> (world \<Rightarrow> (error + bool) \<times> world) \<Rightarrow> world \<Rightarrow> error option \<times> world" where
  "Poll runs interval timeout condition w =
     WaitFor (max 1 (min runs (timeout div interval + 1))) condition w"

definition waitCRDReady :: "nat \<Rightarrow> string \<Rightarrow> world \<Rightarrow> error option \<times> world" where
  "waitCRDReady runs resourceName w =
     Poll runs (1 * Second) (30 * Second) (crdReady resourceName) w"

text \<open>The loop of \<open>CreateCRD\<close> over the resources (name, kind, plural) that are left.\<close>

fun CreateCRDLoop ::
  "nat \<Rightarrow> platform \<Rightarrow> (string \<times> string \<times> string) list \<Rightarrow> world \<Rightarrow> error option \<times> world" where
  "CreateCRDLoop runs P [] w = (None, w)"
| "CreateCRDLoop runs P ((name, kind, plural) # rs) w =
     (case CustomResourceDefinitionsCreate
             \<lparr>crdName = name, crdGroup = SchemeGroup P, crdVersion = SchemeVersion P,
              crdScope = ''Namespaced'', crdPlural = plural, crdKind = kind\<rparr> w of
        (err, w1) \<Rightarrow>
          if err = None \<or> IsAlreadyExists (the err) then
            (case waitCRDReady runs name
                    (glog INFO (''Custom Resource Definiton '' @ [CHR 0x27] @ name @ [CHR 0x27]
                                @ '' provisioned, waiting to be ready ...'') w1) of
               (Some e, w2) \<Rightarrow> (Some e, w2)
             | (None, w2) \<Rightarrow> CreateCRDLoop runs P rs w2)
          else (err, w1))"

definition CreateCRD :: "nat \<Rightarrow> platform \<Rightarrow> world \<Rightarrow> error option \<times> world" where
  "CreateCRD runs P w =
     CreateCRDLoop runs P
       [(PlanResourceName P, PlanResourceKind P, PlanResourcePlural P),
        (ReleaseResourceName P, ReleaseResourceKind P, ReleaseResourcePlural P)] w"

section \<open>What a worker and a poll meet\<close>

text \<open>The queue after \<open>Get\<close> has handed out its first item \<open>k\<close>, \<open>rest\<close> being the others.\<close>

definition afterGet :: "string \<Rightarrow> string list \<Rightarrow> workqueue \<Rightarrow> workqueue" where
  "afterGet k rest q =
     q\<lparr>items := rest, processing := insert k (processing q), dirty := dirty q - {k}\<rparr>"

text \<open>
  The number of times that \<open>waitCRDReady\<close> runs its condition at most: what \<open>Poll\<close> makes of
  \<open>runs\<close> for an interval of one second and a timeout of thirty.
\<close>

definition allowedRuns :: "nat \<Rightarrow> nat" where
  "allowedRuns runs = max 1 (min runs ((30 * Second) div (1 * Second) + 1))"

text \<open>
  What the read number \<open>j\<close> (from 0) of a poll that starts in \<open>w\<close> returns: each read is
  one call, so it is call number \<open>length (actions w) + j\<close>. And what the condition function
  makes of it.
\<close>

definition readAt ::
  "string \<Rightarrow> world \<Rightarrow> nat \<Rightarrow> error + CustomResourceDefinitionCondition list" where
  \<open>readAt name w j =
     (case reactor w (length (actions w) + j) (GetCustomResourceDefinition name) of
        Some e \<Rightarrow> Inl e
      | None \<Rightarrow>
          if \<exists>c \<in> set (crds w). crdName c = name
          then Inr (crdConditions w name (length (actions w) + j))
          else Inl (StatusError StatusReasonNotFound
                      (''customresourcedefinitions "'' @ name @ ''" not found'')))\<close>

definition observe :: "string \<Rightarrow> world \<Rightarrow> nat \<Rightarrow> error + bool" where
  "observe name w j =
     (case readAt name w j of Inl e \<Rightarrow> Inl e | Inr conds \<Rightarrow> checkConditions conds)"

text \<open>
  A condition that decides a poll: Established with status True, or NamesAccepted with
  status False.
\<close>

definition decisive :: "CustomResourceDefinitionCondition \<Rightarrow> bool" where
  "decisive c \<longleftrightarrow>
     (condType c = Established \<and> condStatus c = ConditionTrue)
     \<or> (condType c = NamesAccepted \<and> condStatus c = ConditionFalse)"

section \<open>Kinds of calls\<close>

fun isPatchDeployment :: "action \<Rightarrow> bool" where
  "isPatchDeployment (PatchDeployment ns name pt data) = True"
| "isPatchDeployment a = False"

fun isCreateRoute :: "action \<Rightarrow> bool" where
  "isCreateRoute (CreateService s) = True"
| "isCreateRoute (CreateIngress i) = True"
| "isCreateRoute a = False"

fun isCreateRelease :: "action \<Rightarrow> bool" where
  "isCreateRelease (CreateRelease r) = True"
| "isCreateRelease a = False"

fun isCreatePersistentVolumeClaim :: "action \<Rightarrow> bool" where
  "isCreatePersistentVolumeClaim (CreatePersistentVolumeClaim p) = True"
| "isCreatePersistentVolumeClaim a = False"

section \<open>An instance, for the examples\<close>

text \<open>
  One choice of the platform's parameters: annotation keys under \<open>kolihub.io/\<close>, a
  namespace of the platform made of three parts joined by \<open>-\<close>, the storage plan named by
  a label, the setup marker read as the string "true", and the short form of a revision
  of forty characters.
\<close>

definition examplePlatform :: platform where
  "examplePlatform =
     \<lparr>AnnotationSetupStorage = ''kolihub.io/setup-storage'',
      AnnotationBuild = ''kolihub.io/build'',
      AnnotationApp = ''kolihub.io/app'',
      AnnotationAutoDeploy = ''kolihub.io/autodeploy'',
      AnnotationBuildSource = ''kolihub.io/source'',
      AnnotationGitRemote = ''kolihub.io/gitremote'',
      AnnotationGitBranch = ''kolihub.io/gitbranch'',
      AnnotationGitRepository = ''kolihub.io/gitrepository'',
      AnnotationGitRevision = ''kolihub.io/gitrevision'',
      AnnotationGitCommitID = ''kolihub.io/git-commit-id'',
      AnnotationGitAuthorName = ''kolihub.io/git-author-name'',
      AnnotationGitAuthorAvatar = ''kolihub.io/git-author-avatar'',
      AnnotationGitCompare = ''kolihub.io/git-compare'',
      AnnotationGitCommitMessage = ''kolihub.io/git-commit-message'',
      AnnotationGitCommitURL = ''kolihub.io/git-commit-url'',
      SystemNamespace = ''koli-system'',
      SchemeGroup = ''platform.koli.io'',
      SchemeVersion = ''v1alpha1'',
      SchemeGroupVersionString = ''platform.koli.io/v1alpha1'',
      PlanResourceName = ''plans.platform.koli.io'',
      PlanResourceKind = ''Plan'',
      PlanResourcePlural = ''plans'',
      ReleaseResourceName = ''releases.platform.koli.io'',
      ReleaseResourceKind = ''Release'',
      ReleaseResourcePlural = ''releases'',
      IsValid = (\<lambda>ns. length (Split ns (CHR ''-'')) = 3),
      Valid = (\<lambda>d. length (Split (dpNamespace d) (CHR ''-'')) = 3),
      GetStoragePlan = (\<lambda>d. dpLabels d ''kolihub.io/storage-plan''),
      HasSetupPVCAnnotation = (\<lambda>d. mapIndex (dpAnnotations d) ''kolihub.io/setup-storage'' = ''true''),
      IsStorageType = (\<lambda>p. planType p = ''storage''),
      NewShaShort = (\<lambda>s. if length s = 40 then Some (take 7 s) else None)\<rparr>"

text \<open>A control plane that stores nothing yet and fails no call.\<close>

definition emptyWorld :: world where
  "emptyWorld =
     \<lparr>reactor = (\<lambda>n a. None), actions = [], services = [], ingresses = [], pvcs = [],
      releases = [], crds = [], crdConditions = (\<lambda>name n. []), events = [], logs = [],
      pvcCreated = 0, pvcFailed = 0\<rparr>"

text \<open>
  A deployment of the platform that asks for storage and for a build, and the same
  deployment in a namespace outside the platform, and marked for deletion.
\<close>

definition exampleDeployment :: Deployment where
  "exampleDeployment =
     \<lparr>dpName = ''web'', dpNamespace = ''prod-acme-org'', dpUID = ''uid-1'',
      dpLabels = [''kolihub.io/storage-plan'' \<mapsto> ''ssd-10g''],
      dpAnnotations = [''kolihub.io/setup-storage'' \<mapsto> ''true'',
                       ''kolihub.io/build'' \<mapsto> ''true'',
                       ''kolihub.io/autodeploy'' \<mapsto> ''true'',
                       ''kolihub.io/gitremote'' \<mapsto> ''https://git.example/acme/web.git'',
                       ''kolihub.io/gitbranch'' \<mapsto> ''master''],
      dpDeletionTimestamp = None,
      dpContainers = []\<rparr>"

definition exampleStore :: "Deployment \<Rightarrow> string \<Rightarrow> error + Deployment option" where
  "exampleStore d key = (if key = dpNamespace d @ ''/'' @ dpName d then Inr (Some d) else Inr None)"

definition examplePlan :: Plan where
  "examplePlan = \<lparr>planName = ''ssd-10g'', planType = ''storage'', planStorage = ''10Gi''\<rparr>"

definition exampleController :: AppManagerController where
  "exampleController =
     \<lparr>dpInf = exampleStore exampleDeployment, planInf = [examplePlan], defaultDomain = []\<rparr>"

text \<open>A control plane that stores nothing yet and fails, with \<open>e\<close>, the calls that \<open>f\<close> selects.\<close>

definition failingWorld :: "(action \<Rightarrow> bool) \<Rightarrow> error \<Rightarrow> world" where
  "failingWorld f e = emptyWorld\<lparr>reactor := (\<lambda>n a. if f a then Some e else None)\<rparr>"

definition exampleReleaseController :: ReleaseController where
  "exampleReleaseController = \<lparr>releaseDpInf = exampleStore exampleDeployment\<rparr>"

text \<open>
  A queue that holds one key, which has failed three times before, and two sync
  functions of the application controller: one whose cache has no deployment, one whose
  store fails.
\<close>

definition exampleQueue :: workqueue where
  "exampleQueue =
     \<lparr>items = [''web''], dirty = {''web''}, processing = {}, shuttingDown = False,
      failures = [''web'' \<mapsto> 3], bucket = (\<lambda>n. 0), reservations = 0, waitingForAdd = []\<rparr>"

definition exampleTaskQueue :: "(string \<Rightarrow> error + Deployment option) \<Rightarrow> TaskQueue" where
  "exampleTaskQueue store =
     \<lparr>queue = exampleQueue,
      sync = AppManagerController_syncHandler examplePlatform
               \<lparr>dpInf = store, planInf = [], defaultDomain = []\<rparr>,
      workerDone = False\<rparr>"

text \<open>
  A control plane that holds the custom resource type of the plans, whose conditions are
  given by the number of calls made before the read.
\<close>

definition crdWorld :: "(nat \<Rightarrow> CustomResourceDefinitionCondition list) \<Rightarrow> world" where
  "crdWorld conds =
     emptyWorld\<lparr>crds := [\<lparr>crdName = ''plans.platform.koli.io'', crdGroup = ''platform.koli.io'',
                           crdVersion = ''v1alpha1'', crdScope = ''Namespaced'',
                           crdPlural = ''plans'', crdKind = ''Plan''\<rparr>],
                 crdConditions := (\<lambda>name. conds)\<rparr>"

definition establishedConditions :: "CustomResourceDefinitionCondition list" where
  "establishedConditions =
     [\<lparr>condType = ''NamesAccepted'', condStatus = ''True'', condReason = ''NoConflicts''\<rparr>,
      \<lparr>condType = ''Established'', condStatus = ''True'', condReason = ''InitialNamesAccepted''\<rparr>]"

definition conflictConditions :: "CustomResourceDefinitionCondition list" where
  "conflictConditions =
     [\<lparr>condType = ''NamesAccepted'', condStatus = ''False'', condReason = ''ListKindConflict''\<rparr>,
      \<lparr>condType = ''Established'', condStatus = ''False'', condReason = ''NotAccepted''\<rparr>]"

section \<open>Properties of the add-on lookup\<close>

text \<open>
  C10. An add-on whose type is neither "redis" nor "memcached" (the declared type "mysql"
  included) gets no implementation from \<open>GetApp\<close>, only the error
  "invalid add-on type (<type>)"; "redis" and "memcached" get their implementation and
  no error.
\<close>

theorem GetApp_dispatch:
  "(Type (Spec a) \<noteq> ''redis'' \<and> Type (Spec a) \<noteq> ''memcached'' \<longrightarrow>
      GetApp a c i = Inl (Errorf (''invalid add-on type ('' @ Type (Spec a) @ '')'')))
   \<and> (Type (Spec a) = ''mysql'' \<longrightarrow> GetApp a c i = Inl (Errorf ''invalid add-on type (mysql)''))
   \<and> (Type (Spec a) = ''redis'' \<longrightarrow> GetApp a c i = Inr (Redis c a i))
   \<and> (Type (Spec a) = ''memcached'' \<longrightarrow> GetApp a c i = Inr (Memcached c a i))"
  by (simp add: GetApp_def redis_def memcached_def mySQL_def)

theorem GetApp_dispatch_witness:
  "GetApp \<lparr>addonName = ''db'', addonNamespace = ''prod'',
       Spec = \<lparr>Type = ''mysql'', BaseImage = ''mysql'', Version = ''5.7'', Replicas = 1,
                Port = 3306, Env = [], Args = []\<rparr>\<rparr> () () = Inl (Errorf ''invalid add-on type (mysql)'')
   \<and> GetApp \<lparr>addonName = ''cache'', addonNamespace = ''prod'',
       Spec = \<lparr>Type = ''redis'', BaseImage = ''redis'', Version = ''3'', Replicas = 1,
                Port = 6379, Env = [], Args = []\<rparr>\<rparr> () ()
      = Inr (Redis () \<lparr>addonName = ''cache'', addonNamespace = ''prod'',
       Spec = \<lparr>Type = ''redis'', BaseImage = ''redis'', Version = ''3'', Replicas = 1,
                Port = 6379, Env = [], Args = []\<rparr>\<rparr> ())
   \<and> GetApp \<lparr>addonName = ''mc'', addonNamespace = ''prod'',
       Spec = \<lparr>Type = ''memcached'', BaseImage = ''memcached'', Version = ''1'', Replicas = 1,
                Port = 11211, Env = [], Args = []\<rparr>\<rparr> () ()
      = Inr (Memcached () \<lparr>addonName = ''mc'', addonNamespace = ''prod'',
       Spec = \<lparr>Type = ''memcached'', BaseImage = ''memcached'', Version = ''1'', Replicas = 1,
                Port = 11211, Env = [], Args = []\<rparr>\<rparr> ())"
  using GetApp_dispatch [of "\<lparr>addonName = ''db'', addonNamespace = ''prod'',
       Spec = \<lparr>Type = ''mysql'', BaseImage = ''mysql'', Version = ''5.7'', Replicas = 1,
                Port = 3306, Env = [], Args = []\<rparr>\<rparr>" "()" "()"]
    GetApp_dispatch [of "\<lparr>addonName = ''cache'', addonNamespace = ''prod'',
       Spec = \<lparr>Type = ''redis'', BaseImage = ''redis'', Version = ''3'', Replicas = 1,
                Port = 6379, Env = [], Args = []\<rparr>\<rparr>" "()" "()"]
    GetApp_dispatch [of "\<lparr>addonName = ''mc'', addonNamespace = ''prod'',
       Spec = \<lparr>Type = ''memcached'', BaseImage = ''memcached'', Version = ''1'', Replicas = 1,
                Port = 11211, Env = [], Args = []\<rparr>\<rparr>" "()" "()"]
  by simp

section \<open>Lemmas on the calls and on the steps of the application controller\<close>

lemma Split_no_sep: "sep \<notin> set s \<Longrightarrow> Split s sep = [s]"
  by (induction s) auto

lemma Split_key:
  "sep \<notin> set ns \<Longrightarrow> sep \<notin> set name \<Longrightarrow> Split (ns @ sep # name) sep = [ns, name]"
  by (induction ns) (auto simp: Split_no_sep)

lemma findPlan_aux:
  "foldl (\<lambda>plan p. if planName p = name \<and> IsStorageType P p then Some p else plan) acc plans = None
   \<longleftrightarrow> acc = None \<and> (\<forall>p \<in> set plans. \<not> (planName p = name \<and> IsStorageType P p))"
  by (induction plans arbitrary: acc) auto

lemma findPlan_None:
  "findPlan P plans name = None \<longleftrightarrow> (\<forall>p \<in> set plans. \<not> (planName p = name \<and> IsStorageType P p))"
  by (simp add: findPlan_def findPlan_aux)

lemma findPlan_Some_aux:
  "foldl (\<lambda>plan p. if planName p = name \<and> IsStorageType P p then Some p else plan) acc plans = Some q
   \<Longrightarrow> (acc = Some q \<or> (q \<in> set plans \<and> planName q = name \<and> IsStorageType P q))"
  by (induction plans arbitrary: acc) (auto split: if_splits)

lemma findPlan_Some:
  "findPlan P plans name = Some q \<Longrightarrow> q \<in> set plans \<and> planName q = name \<and> IsStorageType P q"
  using findPlan_Some_aux[of name P None plans q] by (simp add: findPlan_def)

lemma ServicesCreate_frame:
  "actions (snd (ServicesCreate s w)) = actions w @ [CreateService s]"
  "events (snd (ServicesCreate s w)) = events w"
  "pvcs (snd (ServicesCreate s w)) = pvcs w"
  "releases (snd (ServicesCreate s w)) = releases w"
  "reactor (snd (ServicesCreate s w)) = reactor w"
  "pvcCreated (snd (ServicesCreate s w)) = pvcCreated w"
  "pvcFailed (snd (ServicesCreate s w)) = pvcFailed w"
  "logs (snd (ServicesCreate s w)) = logs w"
  by (simp_all add: ServicesCreate_def called_def split: option.split)

lemma IngressesCreate_frame:
  "actions (snd (IngressesCreate s w)) = actions w @ [CreateIngress s]"
  "events (snd (IngressesCreate s w)) = events w"
  "pvcs (snd (IngressesCreate s w)) = pvcs w"
  "releases (snd (IngressesCreate s w)) = releases w"
  "reactor (snd (IngressesCreate s w)) = reactor w"
  "pvcCreated (snd (IngressesCreate s w)) = pvcCreated w"
  "pvcFailed (snd (IngressesCreate s w)) = pvcFailed w"
  "logs (snd (IngressesCreate s w)) = logs w"
  by (simp_all add: IngressesCreate_def called_def split: option.split)

lemma addDefaultRoute_frame:
  "events (snd (addDefaultRoute P c d w)) = events w"
  "pvcs (snd (addDefaultRoute P c d w)) = pvcs w"
  "releases (snd (addDefaultRoute P c d w)) = releases w"
  "reactor (snd (addDefaultRoute P c d w)) = reactor w"
  "pvcCreated (snd (addDefaultRoute P c d w)) = pvcCreated w"
  "pvcFailed (snd (addDefaultRoute P c d w)) = pvcFailed w"
  by (simp_all add: addDefaultRoute_def ServicesCreate_frame IngressesCreate_frame split: prod.split)
     (metis IngressesCreate_frame ServicesCreate_frame snd_conv)+

lemma addDefaultRoute_actions:
  "\<exists>as. actions (snd (addDefaultRoute P c d w)) = actions w @ as \<and> (\<forall>a \<in> set as. isCreateRoute a)"
proof (cases "ServicesCreate (routeService d) w")
  case (Pair err w1)
  have w1: "actions w1 = actions w @ [CreateService (routeService d)]"
    using ServicesCreate_frame(1)[of "routeService d" w] Pair by simp
  have w2: "actions (snd (IngressesCreate (routeIngress P c d) w1))
      = actions w @ [CreateService (routeService d), CreateIngress (routeIngress P c d)]"
    using IngressesCreate_frame(1)[of "routeIngress P c d" w1] w1 by simp
  show ?thesis
    using Pair w1 w2 by (auto simp add: addDefaultRoute_def)
qed

lemma routeAndResources_frame:
  "events (routeAndResources P c key d w) = events w"
  "pvcs (routeAndResources P c key d w) = pvcs w"
  "releases (routeAndResources P c key d w) = releases w"
  "reactor (routeAndResources P c key d w) = reactor w"
  "pvcCreated (routeAndResources P c key d w) = pvcCreated w"
  "pvcFailed (routeAndResources P c key d w) = pvcFailed w"
  using addDefaultRoute_frame[of P c d w]
  by (cases "addDefaultRoute P c d w";
      simp add: routeAndResources_def glog_def Let_def)+

lemma routeAndResources_actions:
  "\<exists>as. actions (routeAndResources P c key d w) = actions w @ as \<and> (\<forall>a \<in> set as. isCreateRoute a)"
  using addDefaultRoute_actions[of P c d w]
  by (cases "addDefaultRoute P c d w";
      simp add: routeAndResources_def glog_def Let_def)

lemma route_no_patch:
  assumes "\<forall>a \<in> set as. isCreateRoute a"
  shows "filter isPatchDeployment as = []" "filter isCreatePersistentVolumeClaim as = []"
proof -
  have "\<forall>a \<in> set as. \<not> isPatchDeployment a \<and> \<not> isCreatePersistentVolumeClaim a"
  proof
    fix a assume "a \<in> set as"
    then have "isCreateRoute a" using assms by blast
    then show "\<not> isPatchDeployment a \<and> \<not> isCreatePersistentVolumeClaim a" by (cases a) simp_all
  qed
  then show "filter isPatchDeployment as = []" "filter isCreatePersistentVolumeClaim as = []"
    by (simp_all add: filter_empty_conv)
qed

section \<open>Properties of the application and storage controller\<close>

text \<open>
  C8. A key \<open>ns/name\<close> that the deployment cache does not hold: the sync returns nil
  whatever the control plane answers, so also when the delete fails. When \<open>ns\<close> is a
  namespace of the platform it makes one call, the delete-collection of the pods of \<open>ns\<close>
  under the label selector \<open><app label>=name\<close> (the platform's \<open>AnnotationApp\<close> key);
  when \<open>ns\<close> is not, it makes no call.
\<close>

theorem cleanup_on_delete:
  assumes "dpInf c key = Inr None"
    and "key = ns @ ''/'' @ name"
    and "CHR ''/'' \<notin> set ns" and "CHR ''/'' \<notin> set name"
  shows "fst (AppManagerController_syncHandler P c key w) = None
     \<and> (IsValid P ns \<longrightarrow>
          actions (snd (AppManagerController_syncHandler P c key w))
            = actions w @ [DeleteCollectionPods ns (AnnotationApp P @ ''='' @ name)])
     \<and> (\<not> IsValid P ns \<longrightarrow>
          actions (snd (AppManagerController_syncHandler P c key w)) = actions w)"
proof -
  have parts: "Split key (CHR ''/'') = [ns, name]"
    using assms(2-4) Split_key[of "CHR ''/''" ns name] by simp
  show ?thesis
    using assms(1) parts
    by (simp add: AppManagerController_syncHandler_def cleanBuilds_def PodsDeleteCollection_def
        called_def glog_def Let_def split: option.split)
qed

theorem cleanup_on_delete_witness:
  "fst (AppManagerController_syncHandler examplePlatform
          \<lparr>dpInf = (\<lambda>k. Inr None), planInf = [], defaultDomain = []\<rparr> ''prod-acme-org/web''
          (emptyWorld\<lparr>reactor := (\<lambda>n a. Some (StatusError StatusReasonUnknown ''timeout''))\<rparr>)) = None
   \<and> actions (snd (AppManagerController_syncHandler examplePlatform
          \<lparr>dpInf = (\<lambda>k. Inr None), planInf = [], defaultDomain = []\<rparr> ''prod-acme-org/web''
          (emptyWorld\<lparr>reactor := (\<lambda>n a. Some (StatusError StatusReasonUnknown ''timeout''))\<rparr>)))
      = [DeleteCollectionPods ''prod-acme-org'' ''kolihub.io/app=web'']
   \<and> fst (AppManagerController_syncHandler examplePlatform
          \<lparr>dpInf = (\<lambda>k. Inr None), planInf = [], defaultDomain = []\<rparr> ''default/web''
          emptyWorld) = None
   \<and> actions (snd (AppManagerController_syncHandler examplePlatform
          \<lparr>dpInf = (\<lambda>k. Inr None), planInf = [], defaultDomain = []\<rparr> ''default/web''
          emptyWorld)) = []"
proof -
  have h1: "\<And>key. dpInf \<lparr>dpInf = (\<lambda>k. Inr None), planInf = [], defaultDomain = []\<rparr> key = Inr None"
    by simp
  have k1: "''prod-acme-org/web'' = ''prod-acme-org'' @ ''/'' @ ''web''" by simp
  have k2: "''default/web'' = ''default'' @ ''/'' @ ''web''" by simp
  have s1: "CHR ''/'' \<notin> set ''prod-acme-org''" by simp
  have s2: "CHR ''/'' \<notin> set ''default''" by simp
  have s3: "CHR ''/'' \<notin> set ''web''" by simp
  have v: "IsValid examplePlatform ''prod-acme-org''" "\<not> IsValid examplePlatform ''default''"
    by (simp_all add: examplePlatform_def)
  have a: "AnnotationApp examplePlatform = ''kolihub.io/app''"
    by (simp add: examplePlatform_def)
  have w: "actions (emptyWorld\<lparr>reactor := (\<lambda>n a. Some (StatusError StatusReasonUnknown ''timeout''))\<rparr>) = []"
    "actions emptyWorld = []"
    by (simp_all add: emptyWorld_def)
  show ?thesis
    using cleanup_on_delete[OF h1 k1 s1 s3, where P = examplePlatform
        and w = "emptyWorld\<lparr>reactor := (\<lambda>n a. Some (StatusError StatusReasonUnknown ''timeout''))\<rparr>"]
      cleanup_on_delete[OF h1 k2 s2 s3, where P = examplePlatform and w = emptyWorld]
    by (simp add: v a w)
qed

text \<open>
  C3, as amended. A cached deployment that is not marked for deletion and is valid for
  the platform, that names a storage plan and carries the setup-storage marker, while no
  plan of that name and of the storage type is in the plan cache: the sync returns an
  error, records one event, the warning "PlanNotFound" on the deployment, and sends no
  patch (the marker stays as it is) and creates no claim.
\<close>

theorem plan_not_found:
  assumes "dpInf c key = Inr (Some d)" "dpDeletionTimestamp d = None" "Valid P d"
    "GetStoragePlan P d = Some name" "HasSetupPVCAnnotation P d"
    "\<forall>p \<in> set (planInf c). \<not> (planName p = name \<and> IsStorageType P p)"
  shows \<open>fst (AppManagerController_syncHandler P c key w)
            = Some (ErrorfFormat (''Storage Plan "'' @ name @ ''" not found''))
     \<and> events (snd (AppManagerController_syncHandler P c key w))
         = events w @ [\<lparr>evKind = ''Deployment'', evNamespace = dpNamespace d, evName = dpName d,
                        evType = ''Warning'', evReason = ''PlanNotFound'',
                        evMessage = ''Storage Plan "'' @ name @ ''" not found''\<rparr>]
     \<and> filter isPatchDeployment (actions (snd (AppManagerController_syncHandler P c key w)))
         = filter isPatchDeployment (actions w)
     \<and> pvcs (snd (AppManagerController_syncHandler P c key w)) = pvcs w\<close>
proof -
  have none: "findPlan P (planInf c) name = None"
    using assms(6) by (simp add: findPlan_None)
  obtain as where as: "actions (routeAndResources P c key d w) = actions w @ as"
    "\<forall>a \<in> set as. isCreateRoute a"
    using routeAndResources_actions by blast
  show ?thesis
    using assms(1-5) none as(1) route_no_patch(1)[OF as(2)]
    by (simp add: AppManagerController_syncHandler_def recorderEvent_def routeAndResources_frame
        EventTypeWarning_def)
qed

theorem plan_not_found_witness:
  \<open>fst (AppManagerController_syncHandler examplePlatform
          \<lparr>dpInf = exampleStore exampleDeployment, planInf = [], defaultDomain = []\<rparr>
          ''prod-acme-org/web'' emptyWorld)
     = Some (ErrorfFormat ''Storage Plan "ssd-10g" not found'')
   \<and> events (snd (AppManagerController_syncHandler examplePlatform
          \<lparr>dpInf = exampleStore exampleDeployment, planInf = [], defaultDomain = []\<rparr>
          ''prod-acme-org/web'' emptyWorld))
     = [\<lparr>evKind = ''Deployment'', evNamespace = ''prod-acme-org'', evName = ''web'',
         evType = ''Warning'', evReason = ''PlanNotFound'',
         evMessage = ''Storage Plan "ssd-10g" not found''\<rparr>]\<close>
  using plan_not_found[of "\<lparr>dpInf = exampleStore exampleDeployment, planInf = [], defaultDomain = []\<rparr>"
      "''prod-acme-org/web''" exampleDeployment examplePlatform "''ssd-10g''" emptyWorld]
  by (simp add: exampleStore_def exampleDeployment_def examplePlatform_def emptyWorld_def mapIndex_def)

text \<open>
  C3 as it is stated fails on a deployment that is marked for deletion, and on one in a
  namespace outside the platform: each names the plan "ssd-10g", carries the marker and
  finds no such plan, yet the sync returns nil and records no event.
\<close>

theorem plan_not_found_counterexample:
  \<open>GetStoragePlan examplePlatform (exampleDeployment\<lparr>dpDeletionTimestamp := Some ''2017-10-31T12:00:00Z''\<rparr>)
     = Some ''ssd-10g''
   \<and> HasSetupPVCAnnotation examplePlatform
        (exampleDeployment\<lparr>dpDeletionTimestamp := Some ''2017-10-31T12:00:00Z''\<rparr>)
   \<and> findPlan examplePlatform [] ''ssd-10g'' = None
   \<and> fst (AppManagerController_syncHandler examplePlatform
          \<lparr>dpInf = exampleStore (exampleDeployment\<lparr>dpDeletionTimestamp := Some ''2017-10-31T12:00:00Z''\<rparr>),
           planInf = [], defaultDomain = []\<rparr>
          ''prod-acme-org/web'' emptyWorld) = None
   \<and> events (snd (AppManagerController_syncHandler examplePlatform
          \<lparr>dpInf = exampleStore (exampleDeployment\<lparr>dpDeletionTimestamp := Some ''2017-10-31T12:00:00Z''\<rparr>),
           planInf = [], defaultDomain = []\<rparr>
          ''prod-acme-org/web'' emptyWorld)) = []
   \<and> GetStoragePlan examplePlatform (exampleDeployment\<lparr>dpNamespace := ''default''\<rparr>) = Some ''ssd-10g''
   \<and> HasSetupPVCAnnotation examplePlatform (exampleDeployment\<lparr>dpNamespace := ''default''\<rparr>)
   \<and> fst (AppManagerController_syncHandler examplePlatform
          \<lparr>dpInf = exampleStore (exampleDeployment\<lparr>dpNamespace := ''default''\<rparr>),
           planInf = [], defaultDomain = []\<rparr>
          ''default/web'' emptyWorld) = None
   \<and> events (snd (AppManagerController_syncHandler examplePlatform
          \<lparr>dpInf = exampleStore (exampleDeployment\<lparr>dpNamespace := ''default''\<rparr>),
           planInf = [], defaultDomain = []\<rparr>
          ''default/web'' emptyWorld)) = []\<close>
  by (simp add: AppManagerController_syncHandler_def exampleStore_def exampleDeployment_def
      examplePlatform_def emptyWorld_def mapIndex_def findPlan_def glog_def)

lemma PersistentVolumeClaimsCreate_frame:
  "actions (snd (PersistentVolumeClaimsCreate p w)) = actions w @ [CreatePersistentVolumeClaim p]"
  "events (snd (PersistentVolumeClaimsCreate p w)) = events w"
  "reactor (snd (PersistentVolumeClaimsCreate p w)) = reactor w"
  "pvcCreated (snd (PersistentVolumeClaimsCreate p w)) = pvcCreated w"
  "pvcFailed (snd (PersistentVolumeClaimsCreate p w)) = pvcFailed w"
  by (simp_all add: PersistentVolumeClaimsCreate_def called_def split: option.split)

lemma PersistentVolumeClaimsCreate_pvcs:
  "pvcs (snd (PersistentVolumeClaimsCreate p w))
     = (if fst (PersistentVolumeClaimsCreate p w) = None then pvcs w @ [p] else pvcs w)"
  by (simp add: PersistentVolumeClaimsCreate_def called_def alreadyExists_def split: option.split)

lemma PersistentVolumeClaimsCreate_fst:
  "fst (PersistentVolumeClaimsCreate p w)
     = (case reactor w (length (actions w)) (CreatePersistentVolumeClaim p) of
          Some e \<Rightarrow> Some e
        | None \<Rightarrow>
            if \<exists>q \<in> set (pvcs w). pvcNamespace q = pvcNamespace p \<and> pvcName q = pvcName p
            then Some (alreadyExists ''persistentvolumeclaims'' (pvcName p)) else None)"
  by (simp add: PersistentVolumeClaimsCreate_def react_def split: option.split)

lemma IsAlreadyExists_alreadyExists: "IsAlreadyExists (alreadyExists r n)"
  by (simp add: alreadyExists_def)

text \<open>What \<open>provisionStorage\<close> returns and leaves, by the answer \<open>e\<close> to the create.\<close>

lemma provisionStorage_failed:
  assumes "PersistentVolumeClaimsCreate (newPVC d plan) w = (Some e, w1)" "\<not> IsAlreadyExists e"
  shows "provisionStorage P key d plan w =
    (Some (ErrorfFormat (''Failed creating PVC ['' @ Error e @ '']'')),
     recorderEvent ''draft.Deployment'' (dpNamespace d) (dpName d) EventTypeWarning
       ''ProvisionError'' (''Failed creating PVC ['' @ Error e @ '']'')
       (w1\<lparr>pvcFailed := pvcFailed w1 + 1\<rparr>))"
  using assms by (simp add: provisionStorage_def)

lemma provisionStorage_patched:
  assumes "PersistentVolumeClaimsCreate (newPVC d plan) w = (e, w1)"
    "e = None \<or> IsAlreadyExists (the e)"
  shows "fst (provisionStorage P key d plan w) =
      (case reactor w (Suc (length (actions w)))
              (PatchDeployment (dpNamespace d) (dpName d) MergePatchType (setupStoragePatch P)) of
         None \<Rightarrow> None
       | Some perr \<Rightarrow> Some (Errorf (key @ '' - failed updating deployment ['' @ Error perr @ '']'')))"
    "actions (snd (provisionStorage P key d plan w)) =
       actions w @ [CreatePersistentVolumeClaim (newPVC d plan),
         PatchDeployment (dpNamespace d) (dpName d) MergePatchType (setupStoragePatch P)]"
    "pvcs (snd (provisionStorage P key d plan w)) = pvcs w1"
    "reactor (snd (provisionStorage P key d plan w)) = reactor w"
    "events (snd (provisionStorage P key d plan w)) = events w"
    "pvcCreated (snd (provisionStorage P key d plan w))
       = (if e = None then pvcCreated w + 1 else pvcCreated w)"
proof -
  have f: "actions w1 = actions w @ [CreatePersistentVolumeClaim (newPVC d plan)]"
    "reactor w1 = reactor w" "events w1 = events w" "pvcCreated w1 = pvcCreated w"
    using PersistentVolumeClaimsCreate_frame[of "newPVC d plan" w] assms(1) by simp_all
  show "fst (provisionStorage P key d plan w) =
      (case reactor w (Suc (length (actions w)))
              (PatchDeployment (dpNamespace d) (dpName d) MergePatchType (setupStoragePatch P)) of
         None \<Rightarrow> None
       | Some perr \<Rightarrow> Some (Errorf (key @ '' - failed updating deployment ['' @ Error perr @ '']'')))"
    using assms f
    by (auto simp add: provisionStorage_def DeploymentsPatch_def react_def glog_def
        split: option.split)
  show "actions (snd (provisionStorage P key d plan w)) =
       actions w @ [CreatePersistentVolumeClaim (newPVC d plan),
         PatchDeployment (dpNamespace d) (dpName d) MergePatchType (setupStoragePatch P)]"
    using assms f
    by (auto simp add: provisionStorage_def DeploymentsPatch_def react_def called_def glog_def
        split: option.split)
  show "pvcs (snd (provisionStorage P key d plan w)) = pvcs w1"
    using assms f
    by (auto simp add: provisionStorage_def DeploymentsPatch_def react_def called_def glog_def
        split: option.split)
  show "reactor (snd (provisionStorage P key d plan w)) = reactor w"
    using assms f
    by (auto simp add: provisionStorage_def DeploymentsPatch_def react_def called_def glog_def
        split: option.split)
  show "events (snd (provisionStorage P key d plan w)) = events w"
    using assms f
    by (auto simp add: provisionStorage_def DeploymentsPatch_def react_def called_def glog_def
        split: option.split)
  show "pvcCreated (snd (provisionStorage P key d plan w))
       = (if e = None then pvcCreated w + 1 else pvcCreated w)"
    using assms f
    by (auto simp add: provisionStorage_def DeploymentsPatch_def react_def called_def glog_def
        split: option.split)
qed

lemma syncHandler_storage:
  assumes "dpInf c key = Inr (Some d)" "dpDeletionTimestamp d = None" "Valid P d"
    "GetStoragePlan P d = Some name" "HasSetupPVCAnnotation P d"
    "findPlan P (planInf c) name = Some plan"
  shows "AppManagerController_syncHandler P c key w
           = provisionStorage P key d plan (routeAndResources P c key d w)"
  using assms by (simp add: AppManagerController_syncHandler_def)

lemma no_marker_no_claim:
  assumes "dpInf c key = Inr (Some d)" "\<not> HasSetupPVCAnnotation P d"
  shows "pvcs (snd (AppManagerController_syncHandler P c key w)) = pvcs w"
    "filter isCreatePersistentVolumeClaim (actions (snd (AppManagerController_syncHandler P c key w)))
       = filter isCreatePersistentVolumeClaim (actions w)"
proof -
  obtain as where as: "actions (routeAndResources P c key d w) = actions w @ as"
    "\<forall>a \<in> set as. isCreateRoute a"
    using routeAndResources_actions by blast
  show "pvcs (snd (AppManagerController_syncHandler P c key w)) = pvcs w"
    using assms
    by (simp add: AppManagerController_syncHandler_def glog_def routeAndResources_frame Let_def)
  show "filter isCreatePersistentVolumeClaim (actions (snd (AppManagerController_syncHandler P c key w)))
       = filter isCreatePersistentVolumeClaim (actions w)"
    using assms as(1) route_no_patch(2)[OF as(2)]
    by (simp add: AppManagerController_syncHandler_def glog_def Let_def)
qed

section \<open>Properties of the storage claim\<close>

lemma claim_created:
  assumes "dpInf c key = Inr (Some d)" "dpDeletionTimestamp d = None" "Valid P d"
    "GetStoragePlan P d = Some name" "HasSetupPVCAnnotation P d"
    "findPlan P (planInf c) name = Some plan"
    and quiet: "\<forall>n. reactor w n (CreatePersistentVolumeClaim (newPVC d plan)) = None"
    and fresh: "\<forall>q \<in> set (pvcs w).
                  \<not> (pvcNamespace q = dpNamespace d \<and> pvcName q = ''d-'' @ dpName d)"
  shows "pvcs (snd (AppManagerController_syncHandler P c key w)) = pvcs w @ [newPVC d plan]"
proof -
  let ?p = "newPVC d plan"
  let ?rr = "routeAndResources P c key d w"
  have nm: "pvcNamespace ?p = dpNamespace d" "pvcName ?p = ''d-'' @ dpName d"
    by (simp_all add: newPVC_def)
  have sync1: "AppManagerController_syncHandler P c key w = provisionStorage P key d plan ?rr"
    using syncHandler_storage[OF assms(1-6)] .
  have e1: "fst (PersistentVolumeClaimsCreate ?p ?rr) = None"
    using quiet fresh nm
    by (simp add: PersistentVolumeClaimsCreate_fst routeAndResources_frame)
  obtain x1 where cr1: "PersistentVolumeClaimsCreate ?p ?rr = (None, x1)"
    using e1 by (cases "PersistentVolumeClaimsCreate ?p ?rr") simp
  have px1: "pvcs x1 = pvcs w @ [?p]"
    using PersistentVolumeClaimsCreate_pvcs[of ?p ?rr] cr1 by (simp add: routeAndResources_frame)
  show ?thesis
    using provisionStorage_patched(3)[OF cr1, of P key] sync1 px1 by simp
qed

lemma specHasSetupPVCAnnotation_cleared:
  "\<not> specHasSetupPVCAnnotation P (mergeAnnotation (AnnotationSetupStorage P) ''false'' d)"
  by (simp add: specHasSetupPVCAnnotation_def mergeAnnotation_def mapIndex_def)

text \<open>
  C6. Take a sync that reaches the storage step (the deployment is cached, not marked for
  deletion, valid, names a storage plan that the plan cache holds, and carries the setup
  marker) on a control plane that does not fail the create of the claim and holds no
  claim of that name in that namespace: the claim is created for the first time. Then
  the sync stores the claim and, after the calls for the default route, makes exactly two
  calls: the create of the claim and one patch of the deployment, of type merge patch,
  whose payload sets the one annotation \<open>AnnotationSetupStorage\<close> to "false". The sync
  returns nil when the patch succeeds and an error when the patch fails. A deployment
  without the marker gets no claim: no create of a claim is sent for it. So it is for
  the patched deployment, where \<open>HasSetupPVCAnnotation\<close> reads the marker as the spec
  says.
\<close>

theorem storage_marker_cleared:
  assumes "dpInf c key = Inr (Some d)" "dpDeletionTimestamp d = None" "Valid P d"
    "GetStoragePlan P d = Some name" "HasSetupPVCAnnotation P d"
    "findPlan P (planInf c) name = Some plan"
    and quiet: "\<forall>n. reactor w n (CreatePersistentVolumeClaim (newPVC d plan)) = None"
    and fresh: "\<forall>q \<in> set (pvcs w).
                  \<not> (pvcNamespace q = dpNamespace d \<and> pvcName q = ''d-'' @ dpName d)"
  shows \<open>pvcs (snd (AppManagerController_syncHandler P c key w)) = pvcs w @ [newPVC d plan]
     \<and> filter isCreatePersistentVolumeClaim
          (actions (snd (AppManagerController_syncHandler P c key w)))
         = filter isCreatePersistentVolumeClaim (actions w)
           @ [CreatePersistentVolumeClaim (newPVC d plan)]
     \<and> filter isPatchDeployment (actions (snd (AppManagerController_syncHandler P c key w)))
         = filter isPatchDeployment (actions w)
           @ [PatchDeployment (dpNamespace d) (dpName d) MergePatchType (setupStoragePatch P)]
     \<and> (\<exists>as. actions (snd (AppManagerController_syncHandler P c key w))
              = actions w @ as @ [CreatePersistentVolumeClaim (newPVC d plan),
                  PatchDeployment (dpNamespace d) (dpName d) MergePatchType (setupStoragePatch P)]
            \<and> (\<forall>a \<in> set as. isCreateRoute a))
     \<and> setupStoragePatch P
         = ''{"metadata": {"annotations": {"'' @ AnnotationSetupStorage P @ ''": "false"}}}''
     \<and> setupStoragePatch P = annotationPatch (AnnotationSetupStorage P) ''false''
     \<and> fst (AppManagerController_syncHandler P c key w)
         = (case reactor w (length (actions (snd (AppManagerController_syncHandler P c key w))) - 1)
                   (PatchDeployment (dpNamespace d) (dpName d) MergePatchType (setupStoragePatch P)) of
              None \<Rightarrow> None
            | Some perr \<Rightarrow>
                Some (Errorf (key @ '' - failed updating deployment ['' @ Error perr @ '']'')))
     \<and> (\<forall>c' d' w'. dpInf c' key = Inr (Some d') \<and> \<not> HasSetupPVCAnnotation P d' \<longrightarrow>
           pvcs (snd (AppManagerController_syncHandler P c' key w')) = pvcs w'
           \<and> filter isCreatePersistentVolumeClaim
                (actions (snd (AppManagerController_syncHandler P c' key w')))
              = filter isCreatePersistentVolumeClaim (actions w'))
     \<and> (HasSetupPVCAnnotation P = specHasSetupPVCAnnotation P \<longrightarrow>
          (\<forall>c' w'. dpInf c' key
                      = Inr (Some (mergeAnnotation (AnnotationSetupStorage P) ''false'' d)) \<longrightarrow>
             pvcs (snd (AppManagerController_syncHandler P c' key w')) = pvcs w'
             \<and> filter isCreatePersistentVolumeClaim
                  (actions (snd (AppManagerController_syncHandler P c' key w')))
                = filter isCreatePersistentVolumeClaim (actions w')))\<close>
proof -
  let ?rr = "routeAndResources P c key d w"
  let ?p = "newPVC d plan"
  have nm: "pvcNamespace ?p = dpNamespace d" "pvcName ?p = ''d-'' @ dpName d"
    by (simp_all add: newPVC_def)
  have sync: "AppManagerController_syncHandler P c key w = provisionStorage P key d plan ?rr"
    using syncHandler_storage[OF assms(1-6)] .
  have e1: "fst (PersistentVolumeClaimsCreate ?p ?rr) = None"
    using quiet fresh nm
    by (simp add: PersistentVolumeClaimsCreate_fst routeAndResources_frame)
  obtain w1 where cr: "PersistentVolumeClaimsCreate ?p ?rr = (None, w1)"
    using e1 by (cases "PersistentVolumeClaimsCreate ?p ?rr") simp
  have pw1: "pvcs w1 = pvcs w @ [?p]"
    using PersistentVolumeClaimsCreate_pvcs[of ?p ?rr] cr by (simp add: routeAndResources_frame)
  have stored: "pvcs (snd (AppManagerController_syncHandler P c key w)) = pvcs w @ [?p]"
    using provisionStorage_patched(3)[OF cr, of P key] sync pw1 by simp
  obtain as where as: "actions ?rr = actions w @ as" "\<forall>a \<in> set as. isCreateRoute a"
    using routeAndResources_actions by blast
  have acts: "actions (snd (AppManagerController_syncHandler P c key w))
      = actions w @ as @ [CreatePersistentVolumeClaim ?p,
          PatchDeployment (dpNamespace d) (dpName d) MergePatchType (setupStoragePatch P)]"
    using provisionStorage_patched(2)[OF cr] sync as(1) by simp
  have creates: "filter isCreatePersistentVolumeClaim
          (actions (snd (AppManagerController_syncHandler P c key w)))
         = filter isCreatePersistentVolumeClaim (actions w) @ [CreatePersistentVolumeClaim ?p]"
    using acts route_no_patch(2)[OF as(2)] by simp
  have patches: "filter isPatchDeployment (actions (snd (AppManagerController_syncHandler P c key w)))
         = filter isPatchDeployment (actions w)
           @ [PatchDeployment (dpNamespace d) (dpName d) MergePatchType (setupStoragePatch P)]"
    using acts route_no_patch(1)[OF as(2)] by simp
  have ex: "\<exists>as. actions (snd (AppManagerController_syncHandler P c key w))
              = actions w @ as @ [CreatePersistentVolumeClaim ?p,
                  PatchDeployment (dpNamespace d) (dpName d) MergePatchType (setupStoragePatch P)]
            \<and> (\<forall>a \<in> set as. isCreateRoute a)"
    using acts as(2) by blast
  have res: "fst (AppManagerController_syncHandler P c key w)
         = (case reactor w (length (actions (snd (AppManagerController_syncHandler P c key w))) - 1)
                   (PatchDeployment (dpNamespace d) (dpName d) MergePatchType (setupStoragePatch P)) of
              None \<Rightarrow> None
            | Some perr \<Rightarrow>
                Some (Errorf (key @ '' - failed updating deployment ['' @ Error perr @ '']'')))"
    using provisionStorage_patched(1)[OF cr, of P key] sync acts as(1)
    by (simp add: routeAndResources_frame)
  have pay: \<open>setupStoragePatch P
         = ''{"metadata": {"annotations": {"'' @ AnnotationSetupStorage P @ ''": "false"}}}''\<close>
    \<open>setupStoragePatch P = annotationPatch (AnnotationSetupStorage P) ''false''\<close>
    by (simp_all add: setupStoragePatch_def annotationPatch_def)
  have nomark: "\<forall>c' d' w'. dpInf c' key = Inr (Some d') \<and> \<not> HasSetupPVCAnnotation P d' \<longrightarrow>
           pvcs (snd (AppManagerController_syncHandler P c' key w')) = pvcs w'
           \<and> filter isCreatePersistentVolumeClaim
                (actions (snd (AppManagerController_syncHandler P c' key w')))
              = filter isCreatePersistentVolumeClaim (actions w')"
    using no_marker_no_claim by blast
  have patched: "HasSetupPVCAnnotation P = specHasSetupPVCAnnotation P \<longrightarrow>
          (\<forall>c' w'. dpInf c' key
                      = Inr (Some (mergeAnnotation (AnnotationSetupStorage P) ''false'' d)) \<longrightarrow>
             pvcs (snd (AppManagerController_syncHandler P c' key w')) = pvcs w'
             \<and> filter isCreatePersistentVolumeClaim
                  (actions (snd (AppManagerController_syncHandler P c' key w')))
                = filter isCreatePersistentVolumeClaim (actions w'))"
  proof (intro impI allI)
    fix c' :: AppManagerController and w' :: world
    assume h: "HasSetupPVCAnnotation P = specHasSetupPVCAnnotation P"
      and s: "dpInf c' key = Inr (Some (mergeAnnotation (AnnotationSetupStorage P) ''false'' d))"
    have "\<not> HasSetupPVCAnnotation P (mergeAnnotation (AnnotationSetupStorage P) ''false'' d)"
      using h specHasSetupPVCAnnotation_cleared[of P d] by simp
    then show "pvcs (snd (AppManagerController_syncHandler P c' key w')) = pvcs w'
             \<and> filter isCreatePersistentVolumeClaim
                  (actions (snd (AppManagerController_syncHandler P c' key w')))
                = filter isCreatePersistentVolumeClaim (actions w')"
      using no_marker_no_claim[OF s] by blast
  qed
  show ?thesis
    using stored creates patches ex pay res nomark patched by blast
qed

lemma two_syncs:
  assumes "dpInf c key = Inr (Some d)" "dpDeletionTimestamp d = None" "Valid P d"
    "GetStoragePlan P d = Some name" "HasSetupPVCAnnotation P d"
    "findPlan P (planInf c) name = Some plan"
    and quiet: "\<forall>n a. reactor w n a = None"
    and fresh: "\<forall>q \<in> set (pvcs w).
                  \<not> (pvcNamespace q = dpNamespace d \<and> pvcName q = ''d-'' @ dpName d)"
  shows "fst (AppManagerController_syncHandler P c key w) = None"
    "pvcs (snd (AppManagerController_syncHandler P c key w)) = pvcs w @ [newPVC d plan]"
    "fst (PersistentVolumeClaimsCreate (newPVC d plan)
            (snd (AppManagerController_syncHandler P c key w)))
       = Some (alreadyExists ''persistentvolumeclaims'' (''d-'' @ dpName d))"
    "fst (AppManagerController_syncHandler P c key
            (snd (AppManagerController_syncHandler P c key w))) = None"
    "pvcs (snd (AppManagerController_syncHandler P c key
            (snd (AppManagerController_syncHandler P c key w)))) = pvcs w @ [newPVC d plan]"
proof -
  let ?p = "newPVC d plan"
  let ?rr = "routeAndResources P c key d w"
  let ?w1 = "snd (AppManagerController_syncHandler P c key w)"
  let ?rr2 = "routeAndResources P c key d ?w1"
  have nm: "pvcNamespace ?p = dpNamespace d" "pvcName ?p = ''d-'' @ dpName d"
    by (simp_all add: newPVC_def)
  have sync1: "AppManagerController_syncHandler P c key w = provisionStorage P key d plan ?rr"
    using syncHandler_storage[OF assms(1-6)] .
  have sync2: "AppManagerController_syncHandler P c key ?w1 = provisionStorage P key d plan ?rr2"
    using syncHandler_storage[OF assms(1-6)] .
  have e1: "fst (PersistentVolumeClaimsCreate ?p ?rr) = None"
    using quiet fresh nm
    by (simp add: PersistentVolumeClaimsCreate_fst routeAndResources_frame)
  obtain x1 where cr1: "PersistentVolumeClaimsCreate ?p ?rr = (None, x1)"
    using e1 by (cases "PersistentVolumeClaimsCreate ?p ?rr") simp
  have px1: "pvcs x1 = pvcs w @ [?p]"
    using PersistentVolumeClaimsCreate_pvcs[of ?p ?rr] cr1 by (simp add: routeAndResources_frame)
  show r1: "fst (AppManagerController_syncHandler P c key w) = None"
    using provisionStorage_patched(1)[OF cr1, of P key] quiet sync1
    by (simp add: routeAndResources_frame)
  show p1: "pvcs ?w1 = pvcs w @ [?p]"
    using provisionStorage_patched(3)[OF cr1, of P key] sync1 px1 by simp
  have q1: "reactor ?w1 = reactor w"
    using provisionStorage_patched(4)[OF cr1, of P key] sync1
    by (simp add: routeAndResources_frame)
  show "fst (PersistentVolumeClaimsCreate ?p ?w1)
       = Some (alreadyExists ''persistentvolumeclaims'' (''d-'' @ dpName d))"
    using quiet p1 q1 nm by (simp add: PersistentVolumeClaimsCreate_fst)
  have e2: "fst (PersistentVolumeClaimsCreate ?p ?rr2)
       = Some (alreadyExists ''persistentvolumeclaims'' (''d-'' @ dpName d))"
    using quiet p1 q1 nm by (simp add: PersistentVolumeClaimsCreate_fst routeAndResources_frame)
  obtain x2 where cr2: "PersistentVolumeClaimsCreate ?p ?rr2
       = (Some (alreadyExists ''persistentvolumeclaims'' (''d-'' @ dpName d)), x2)"
    using e2 by (cases "PersistentVolumeClaimsCreate ?p ?rr2") simp
  have px2: "pvcs x2 = pvcs w @ [?p]"
    using PersistentVolumeClaimsCreate_pvcs[of ?p ?rr2] cr2 p1 by (simp add: routeAndResources_frame)
  show "fst (AppManagerController_syncHandler P c key ?w1) = None"
    using provisionStorage_patched(1)[OF cr2, of P key] quiet sync2 q1
    by (simp add: routeAndResources_frame IsAlreadyExists_alreadyExists)
  show "pvcs (snd (AppManagerController_syncHandler P c key ?w1)) = pvcs w @ [?p]"
    using provisionStorage_patched(3)[OF cr2, of P key] sync2 px2
    by (simp add: IsAlreadyExists_alreadyExists)
qed

text \<open>
  C5. The claim of a deployment and a plan is named "d-" followed by the deployment's name,
  in the deployment's namespace, and requests the plan's storage. Take a sync that
  reaches the storage step, on a control plane that fails no call and holds no claim of
  that name in that namespace, and run it twice on the unchanged deployment. The first
  sync returns nil and stores the claim. The create of the second attempt is answered
  "already exists"; the second sync treats that as success and returns nil, and after it
  the control plane holds what it held before and this one claim: exactly one claim of
  that name.
\<close>

theorem claim_created_once:
  "pvcName (newPVC d plan) = ''d-'' @ dpName d
   \<and> pvcNamespace (newPVC d plan) = dpNamespace d
   \<and> pvcRequests (newPVC d plan) ''storage'' = Some (planStorage plan)
   \<and> (dpInf c key = Inr (Some d) \<and> dpDeletionTimestamp d = None \<and> Valid P d
        \<and> GetStoragePlan P d = Some name \<and> HasSetupPVCAnnotation P d
        \<and> findPlan P (planInf c) name = Some plan
        \<and> (\<forall>n a. reactor w n a = None)
        \<and> (\<forall>q \<in> set (pvcs w).
               \<not> (pvcNamespace q = dpNamespace d \<and> pvcName q = ''d-'' @ dpName d))
       \<longrightarrow>
         fst (AppManagerController_syncHandler P c key w) = None
         \<and> fst (PersistentVolumeClaimsCreate (newPVC d plan)
                  (snd (AppManagerController_syncHandler P c key w)))
             = Some (alreadyExists ''persistentvolumeclaims'' (''d-'' @ dpName d))
         \<and> IsAlreadyExists (alreadyExists ''persistentvolumeclaims'' (''d-'' @ dpName d))
         \<and> fst (AppManagerController_syncHandler P c key
                  (snd (AppManagerController_syncHandler P c key w))) = None
         \<and> pvcs (snd (AppManagerController_syncHandler P c key
                  (snd (AppManagerController_syncHandler P c key w)))) = pvcs w @ [newPVC d plan]
         \<and> filter (\<lambda>q. pvcNamespace q = dpNamespace d \<and> pvcName q = ''d-'' @ dpName d)
              (pvcs (snd (AppManagerController_syncHandler P c key
                  (snd (AppManagerController_syncHandler P c key w))))) = [newPVC d plan])"
proof -
  have nm: "pvcName (newPVC d plan) = ''d-'' @ dpName d"
    "pvcNamespace (newPVC d plan) = dpNamespace d"
    "pvcRequests (newPVC d plan) ''storage'' = Some (planStorage plan)"
    by (simp_all add: newPVC_def)
  have flt: "(\<forall>q \<in> set (pvcs w).
               \<not> (pvcNamespace q = dpNamespace d \<and> pvcName q = ''d-'' @ dpName d))
     \<Longrightarrow> filter (\<lambda>q. pvcNamespace q = dpNamespace d \<and> pvcName q = ''d-'' @ dpName d)
              (pvcs w @ [newPVC d plan]) = [newPVC d plan]"
    using nm by (simp add: filter_empty_conv)
  show ?thesis
    using nm two_syncs[of c key d P name plan w] flt
    by (simp add: IsAlreadyExists_alreadyExists)
qed
lemma example_reach:
  "dpInf exampleController ''prod-acme-org/web'' = Inr (Some exampleDeployment)"
  "dpDeletionTimestamp exampleDeployment = None"
  "Valid examplePlatform exampleDeployment"
  "GetStoragePlan examplePlatform exampleDeployment = Some ''ssd-10g''"
  "HasSetupPVCAnnotation examplePlatform exampleDeployment"
  "findPlan examplePlatform (planInf exampleController) ''ssd-10g'' = Some examplePlan"
  by (simp_all add: exampleController_def exampleStore_def exampleDeployment_def
      examplePlatform_def examplePlan_def findPlan_def mapIndex_def)

theorem storage_marker_cleared_witness:
  \<open>pvcs (snd (AppManagerController_syncHandler examplePlatform exampleController
          ''prod-acme-org/web'' emptyWorld)) = [newPVC exampleDeployment examplePlan]
   \<and> filter isCreatePersistentVolumeClaim
        (actions (snd (AppManagerController_syncHandler examplePlatform exampleController
          ''prod-acme-org/web'' emptyWorld)))
      = [CreatePersistentVolumeClaim (newPVC exampleDeployment examplePlan)]
   \<and> filter isPatchDeployment
        (actions (snd (AppManagerController_syncHandler examplePlatform exampleController
          ''prod-acme-org/web'' emptyWorld)))
      = [PatchDeployment ''prod-acme-org'' ''web'' MergePatchType
           ''{"metadata": {"annotations": {"kolihub.io/setup-storage": "false"}}}'']
   \<and> fst (AppManagerController_syncHandler examplePlatform exampleController
          ''prod-acme-org/web'' emptyWorld) = None
   \<and> pvcs (snd (AppManagerController_syncHandler examplePlatform exampleController
          ''prod-acme-org/web''
          (failingWorld isPatchDeployment (StatusError StatusReasonUnknown ''conflict''))))
      = [newPVC exampleDeployment examplePlan]
   \<and> filter isPatchDeployment
        (actions (snd (AppManagerController_syncHandler examplePlatform exampleController
          ''prod-acme-org/web''
          (failingWorld isPatchDeployment (StatusError StatusReasonUnknown ''conflict'')))))
      = [PatchDeployment ''prod-acme-org'' ''web'' MergePatchType
           ''{"metadata": {"annotations": {"kolihub.io/setup-storage": "false"}}}'']
   \<and> fst (AppManagerController_syncHandler examplePlatform exampleController
          ''prod-acme-org/web''
          (failingWorld isPatchDeployment (StatusError StatusReasonUnknown ''conflict'')))
       = Some (Errorf ''prod-acme-org/web - failed updating deployment [conflict]'')
   \<and> pvcs (snd (AppManagerController_syncHandler examplePlatform
          \<lparr>dpInf = exampleStore (mergeAnnotation ''kolihub.io/setup-storage'' ''false'' exampleDeployment),
           planInf = [examplePlan], defaultDomain = []\<rparr>
          ''prod-acme-org/web'' emptyWorld)) = []
   \<and> filter isCreatePersistentVolumeClaim
        (actions (snd (AppManagerController_syncHandler examplePlatform
          \<lparr>dpInf = exampleStore (mergeAnnotation ''kolihub.io/setup-storage'' ''false'' exampleDeployment),
           planInf = [examplePlan], defaultDomain = []\<rparr>
          ''prod-acme-org/web'' emptyWorld))) = []\<close>
proof -
  let ?fw = "failingWorld isPatchDeployment (StatusError StatusReasonUnknown ''conflict'')"
  let ?c' = "\<lparr>dpInf = exampleStore (mergeAnnotation ''kolihub.io/setup-storage'' ''false'' exampleDeployment),
           planInf = [examplePlan], defaultDomain = []\<rparr>"
  have q1: "\<forall>n. reactor emptyWorld n
                 (CreatePersistentVolumeClaim (newPVC exampleDeployment examplePlan)) = None"
    "\<forall>q \<in> set (pvcs emptyWorld).
        \<not> (pvcNamespace q = dpNamespace exampleDeployment
            \<and> pvcName q = ''d-'' @ dpName exampleDeployment)"
    by (simp_all add: emptyWorld_def)
  have q2: "\<forall>n. reactor ?fw n
                 (CreatePersistentVolumeClaim (newPVC exampleDeployment examplePlan)) = None"
    "\<forall>q \<in> set (pvcs ?fw).
        \<not> (pvcNamespace q = dpNamespace exampleDeployment
            \<and> pvcName q = ''d-'' @ dpName exampleDeployment)"
    by (simp_all add: failingWorld_def emptyWorld_def)
  note T1 = storage_marker_cleared[OF example_reach q1]
  note T2 = storage_marker_cleared[OF example_reach q2]
  have r1: "\<And>n a. reactor emptyWorld n a = None"
    by (simp add: emptyWorld_def)
  have r2: "\<And>n pt data. reactor ?fw n (PatchDeployment ''prod-acme-org'' ''web'' pt data)
            = Some (StatusError StatusReasonUnknown ''conflict'')"
    by (simp add: failingWorld_def emptyWorld_def)
  have n: "dpNamespace exampleDeployment = ''prod-acme-org''" "dpName exampleDeployment = ''web''"
    "pvcs emptyWorld = []" "actions emptyWorld = []" "pvcs ?fw = []" "actions ?fw = []"
    by (simp_all add: exampleDeployment_def emptyWorld_def failingWorld_def)
  have a: "AnnotationSetupStorage examplePlatform = ''kolihub.io/setup-storage''"
    by (simp add: examplePlatform_def)
  have sp: "HasSetupPVCAnnotation examplePlatform = specHasSetupPVCAnnotation examplePlatform"
    by (simp add: examplePlatform_def specHasSetupPVCAnnotation_def fun_eq_iff)
  have st: "dpInf ?c' ''prod-acme-org/web''
      = Inr (Some (mergeAnnotation (AnnotationSetupStorage examplePlatform) ''false'' exampleDeployment))"
    by (simp add: a exampleStore_def mergeAnnotation_def exampleDeployment_def)
  have A1: "pvcs (snd (AppManagerController_syncHandler examplePlatform exampleController
          ''prod-acme-org/web'' emptyWorld))
        = pvcs emptyWorld @ [newPVC exampleDeployment examplePlan]
      \<and> filter isCreatePersistentVolumeClaim
          (actions (snd (AppManagerController_syncHandler examplePlatform exampleController
             ''prod-acme-org/web'' emptyWorld)))
        = filter isCreatePersistentVolumeClaim (actions emptyWorld)
           @ [CreatePersistentVolumeClaim (newPVC exampleDeployment examplePlan)]
      \<and> filter isPatchDeployment
          (actions (snd (AppManagerController_syncHandler examplePlatform exampleController
             ''prod-acme-org/web'' emptyWorld)))
        = filter isPatchDeployment (actions emptyWorld)
           @ [PatchDeployment (dpNamespace exampleDeployment) (dpName exampleDeployment)
                MergePatchType (setupStoragePatch examplePlatform)]"
    using T1 by blast
  have A2: "pvcs (snd (AppManagerController_syncHandler examplePlatform exampleController
          ''prod-acme-org/web'' ?fw))
        = pvcs ?fw @ [newPVC exampleDeployment examplePlan]
      \<and> filter isPatchDeployment
          (actions (snd (AppManagerController_syncHandler examplePlatform exampleController
             ''prod-acme-org/web'' ?fw)))
        = filter isPatchDeployment (actions ?fw)
           @ [PatchDeployment (dpNamespace exampleDeployment) (dpName exampleDeployment)
                MergePatchType (setupStoragePatch examplePlatform)]"
    using T2 by blast
  have P: \<open>setupStoragePatch examplePlatform
         = ''{"metadata": {"annotations": {"'' @ AnnotationSetupStorage examplePlatform
             @ ''": "false"}}}''\<close>
    using T1 by blast
  have F1: "fst (AppManagerController_syncHandler examplePlatform exampleController
          ''prod-acme-org/web'' emptyWorld)
         = (case reactor emptyWorld (length (actions (snd (AppManagerController_syncHandler
                examplePlatform exampleController ''prod-acme-org/web'' emptyWorld))) - 1)
                   (PatchDeployment (dpNamespace exampleDeployment) (dpName exampleDeployment)
                      MergePatchType (setupStoragePatch examplePlatform)) of
              None \<Rightarrow> None
            | Some perr \<Rightarrow>
                Some (Errorf (''prod-acme-org/web'' @ '' - failed updating deployment [''
                              @ Error perr @ '']'')))"
    using T1 by blast
  have F2: "fst (AppManagerController_syncHandler examplePlatform exampleController
          ''prod-acme-org/web'' ?fw)
         = (case reactor ?fw (length (actions (snd (AppManagerController_syncHandler
                examplePlatform exampleController ''prod-acme-org/web'' ?fw))) - 1)
                   (PatchDeployment (dpNamespace exampleDeployment) (dpName exampleDeployment)
                      MergePatchType (setupStoragePatch examplePlatform)) of
              None \<Rightarrow> None
            | Some perr \<Rightarrow>
                Some (Errorf (''prod-acme-org/web'' @ '' - failed updating deployment [''
                              @ Error perr @ '']'')))"
    using T2 by blast
  have N: "pvcs (snd (AppManagerController_syncHandler examplePlatform ?c'
                        ''prod-acme-org/web'' emptyWorld)) = pvcs emptyWorld
      \<and> filter isCreatePersistentVolumeClaim
          (actions (snd (AppManagerController_syncHandler examplePlatform ?c'
                        ''prod-acme-org/web'' emptyWorld)))
        = filter isCreatePersistentVolumeClaim (actions emptyWorld)"
    using T1 sp st by blast
  have G1: "fst (AppManagerController_syncHandler examplePlatform exampleController
          ''prod-acme-org/web'' emptyWorld) = None"
    using F1 by (simp add: r1)
  have G2: "fst (AppManagerController_syncHandler examplePlatform exampleController
          ''prod-acme-org/web'' ?fw)
       = Some (Errorf ''prod-acme-org/web - failed updating deployment [conflict]'')"
    using F2 by (simp add: r2 n(1,2))
  show ?thesis
    using A1 A2 G1 G2 N by (simp add: n a P)
qed

theorem claim_created_once_witness:
  "pvcName (newPVC exampleDeployment examplePlan) = ''d-web''
   \<and> pvcNamespace (newPVC exampleDeployment examplePlan) = ''prod-acme-org''
   \<and> pvcRequests (newPVC exampleDeployment examplePlan) ''storage'' = Some ''10Gi''
   \<and> fst (AppManagerController_syncHandler examplePlatform exampleController
            ''prod-acme-org/web'' emptyWorld) = None
   \<and> fst (AppManagerController_syncHandler examplePlatform exampleController ''prod-acme-org/web''
            (snd (AppManagerController_syncHandler examplePlatform exampleController
                    ''prod-acme-org/web'' emptyWorld))) = None
   \<and> pvcs (snd (AppManagerController_syncHandler examplePlatform exampleController ''prod-acme-org/web''
            (snd (AppManagerController_syncHandler examplePlatform exampleController
                    ''prod-acme-org/web'' emptyWorld)))) = [newPVC exampleDeployment examplePlan]"
proof -
  have H: "dpInf exampleController ''prod-acme-org/web'' = Inr (Some exampleDeployment)
        \<and> dpDeletionTimestamp exampleDeployment = None \<and> Valid examplePlatform exampleDeployment
        \<and> GetStoragePlan examplePlatform exampleDeployment = Some ''ssd-10g''
        \<and> HasSetupPVCAnnotation examplePlatform exampleDeployment
        \<and> findPlan examplePlatform (planInf exampleController) ''ssd-10g'' = Some examplePlan
        \<and> (\<forall>n a. reactor emptyWorld n a = None)
        \<and> (\<forall>q \<in> set (pvcs emptyWorld).
               \<not> (pvcNamespace q = dpNamespace exampleDeployment
                   \<and> pvcName q = ''d-'' @ dpName exampleDeployment))"
    using example_reach by (simp add: emptyWorld_def)
  have n: "dpNamespace exampleDeployment = ''prod-acme-org''" "dpName exampleDeployment = ''web''"
    "planStorage examplePlan = ''10Gi''" "pvcs emptyWorld = []"
    by (simp_all add: exampleDeployment_def examplePlan_def emptyWorld_def)
  note T = claim_created_once[where d = exampleDeployment and plan = examplePlan
      and c = exampleController and key = "''prod-acme-org/web''" and P = examplePlatform
      and name = "''ssd-10g''" and w = emptyWorld]
  have R: "fst (AppManagerController_syncHandler examplePlatform exampleController
            ''prod-acme-org/web'' emptyWorld) = None
     \<and> fst (AppManagerController_syncHandler examplePlatform exampleController ''prod-acme-org/web''
            (snd (AppManagerController_syncHandler examplePlatform exampleController
                    ''prod-acme-org/web'' emptyWorld))) = None
     \<and> pvcs (snd (AppManagerController_syncHandler examplePlatform exampleController ''prod-acme-org/web''
            (snd (AppManagerController_syncHandler examplePlatform exampleController
                    ''prod-acme-org/web'' emptyWorld)))) = pvcs emptyWorld @ [newPVC exampleDeployment examplePlan]"
    using T H by blast
  have N: "pvcName (newPVC exampleDeployment examplePlan) = ''d-'' @ dpName exampleDeployment
     \<and> pvcNamespace (newPVC exampleDeployment examplePlan) = dpNamespace exampleDeployment
     \<and> pvcRequests (newPVC exampleDeployment examplePlan) ''storage'' = Some (planStorage examplePlan)"
    using T by blast
  show ?thesis
    using R N by (simp add: n)
qed

section \<open>Lemmas on the steps of the release controller\<close>

lemma ReleaseCreate_frame:
  "actions (snd (ReleaseCreate rel w)) = actions w @ [CreateRelease rel]"
  "events (snd (ReleaseCreate rel w)) = events w"
  "reactor (snd (ReleaseCreate rel w)) = reactor w"
  "logs (snd (ReleaseCreate rel w)) = logs w"
  by (simp_all add: ReleaseCreate_def called_def split: option.split)

lemma ReleaseCreate_fst:
  "fst (ReleaseCreate rel w)
     = (case reactor w (length (actions w)) (CreateRelease rel) of
          Some e \<Rightarrow> Some e
        | None \<Rightarrow>
            if \<exists>r \<in> set (releases w). relNamespace r = relNamespace rel \<and> relName r = relName rel
            then Some (alreadyExists ''releases'' (relName rel)) else None)"
  by (simp add: ReleaseCreate_def react_def split: option.split)

lemma ReleaseCreate_releases:
  "releases (snd (ReleaseCreate rel w))
     = (if fst (ReleaseCreate rel w) = None then releases w @ [rel] else releases w)"
  by (simp add: ReleaseCreate_def called_def alreadyExists_def split: option.split)

lemma createAndDeactivate_failed:
  assumes "fst (ReleaseCreate rel w) = Some e" "\<not> IsAlreadyExists e"
  shows "fst (createAndDeactivate P key dp rel w)
           = Some (Errorf (''failed creating new release: '' @ Error e))"
    "actions (snd (createAndDeactivate P key dp rel w)) = actions w @ [CreateRelease rel]"
    "releases (snd (createAndDeactivate P key dp rel w)) = releases w"
    "events (snd (createAndDeactivate P key dp rel w)) = events w"
proof -
  obtain w1 where cr: "ReleaseCreate rel w = (Some e, w1)"
    using assms(1) by (cases "ReleaseCreate rel w") simp
  have f: "actions w1 = actions w @ [CreateRelease rel]" "events w1 = events w"
    using ReleaseCreate_frame[of rel w] cr by simp_all
  have r: "releases w1 = releases w"
    using ReleaseCreate_releases[of rel w] cr by simp
  show "fst (createAndDeactivate P key dp rel w)
           = Some (Errorf (''failed creating new release: '' @ Error e))"
    using cr assms(2) by (simp add: createAndDeactivate_def)
  show "actions (snd (createAndDeactivate P key dp rel w)) = actions w @ [CreateRelease rel]"
    using cr assms(2) f by (simp add: createAndDeactivate_def)
  show "releases (snd (createAndDeactivate P key dp rel w)) = releases w"
    using cr assms(2) r by (simp add: createAndDeactivate_def)
  show "events (snd (createAndDeactivate P key dp rel w)) = events w"
    using cr assms(2) f by (simp add: createAndDeactivate_def)
qed

lemma createAndDeactivate_patched:
  assumes "fst (ReleaseCreate rel w) = None
           \<or> (\<exists>e. fst (ReleaseCreate rel w) = Some e \<and> IsAlreadyExists e)"
  shows "fst (createAndDeactivate P key dp rel w) = None"
    "actions (snd (createAndDeactivate P key dp rel w))
       = actions w @ [CreateRelease rel,
           PatchDeployment (dpNamespace dp) (dpName dp) StrategicMergePatchType
             (activateBuildPayload P False)]"
    "releases (snd (createAndDeactivate P key dp rel w)) = releases (snd (ReleaseCreate rel w))"
    "\<And>perr. reactor w (Suc (length (actions w)))
             (PatchDeployment (dpNamespace dp) (dpName dp) StrategicMergePatchType
                (activateBuildPayload P False)) = Some perr
       \<Longrightarrow> logs (snd (createAndDeactivate P key dp rel w)) \<noteq> []
           \<and> last (logs (snd (createAndDeactivate P key dp rel w)))
             = (WARNING, key @ '' - failed deactivating build from deployment [''
                          @ Error perr @ '']'')"
proof -
  obtain e w1 where cr: "ReleaseCreate rel w = (e, w1)"
    by (cases "ReleaseCreate rel w")
  have ok: "\<not> (e \<noteq> None \<and> \<not> IsAlreadyExists (the e))"
    using assms cr by auto
  have f: "actions w1 = actions w @ [CreateRelease rel]" "reactor w1 = reactor w"
    using ReleaseCreate_frame[of rel w] cr by simp_all
  show "fst (createAndDeactivate P key dp rel w) = None"
    using cr ok
    by (simp add: createAndDeactivate_def DeploymentsPatch_def Let_def split: option.split)
  show "actions (snd (createAndDeactivate P key dp rel w))
       = actions w @ [CreateRelease rel,
           PatchDeployment (dpNamespace dp) (dpName dp) StrategicMergePatchType
             (activateBuildPayload P False)]"
    using cr ok f
    by (simp add: createAndDeactivate_def DeploymentsPatch_def called_def glog_def
        recorderEvent_def Let_def split: option.split)
  show "releases (snd (createAndDeactivate P key dp rel w)) = releases (snd (ReleaseCreate rel w))"
    using cr ok
    by (simp add: createAndDeactivate_def DeploymentsPatch_def called_def glog_def
        recorderEvent_def Let_def split: option.split)
  show "\<And>perr. reactor w (Suc (length (actions w)))
             (PatchDeployment (dpNamespace dp) (dpName dp) StrategicMergePatchType
                (activateBuildPayload P False)) = Some perr
       \<Longrightarrow> logs (snd (createAndDeactivate P key dp rel w)) \<noteq> []
           \<and> last (logs (snd (createAndDeactivate P key dp rel w)))
             = (WARNING, key @ '' - failed deactivating build from deployment [''
                          @ Error perr @ '']'')"
    using cr ok f
    by (auto simp add: createAndDeactivate_def DeploymentsPatch_def called_def react_def glog_def
        recorderEvent_def Let_def)
qed

lemma beforeCreate_frame:
  "actions (beforeCreate P key dp w) = actions w"
  "reactor (beforeCreate P key dp w) = reactor w"
  "releases (beforeCreate P key dp w) = releases w"
  "events (beforeCreate P key dp w) = events w"
  by (simp_all add: beforeCreate_def glog_def)

lemma ReleaseCreate_beforeCreate:
  "fst (ReleaseCreate rel (beforeCreate P key dp w)) = fst (ReleaseCreate rel w)"
  by (auto simp add: ReleaseCreate_fst beforeCreate_frame split: option.split)

lemma validateRequiredKeys_present:
  "validateRequiredKeys P dp = None \<longleftrightarrow> dpAnnotations dp (AnnotationGitRemote P) \<noteq> None"
  by (simp add: validateRequiredKeys_def requiredKeys_def)

lemma release_sync_reach:
  assumes "releaseDpInf r key = Inr (Some dp)" "IsValid P (dpNamespace dp)"
    "mapIndex (dpAnnotations dp) ''kolihub.io/build'' = ''true''"
    "dpAnnotations dp (AnnotationGitRemote P) \<noteq> None"
  shows "ReleaseController_syncHandler P r key w
           = createAndDeactivate P key dp (newRelease P dp) (beforeCreate P key dp w)"
  using assms validateRequiredKeys_present[of P dp]
  by (simp add: ReleaseController_syncHandler_def)

lemma release_sync_noop:
  assumes "releaseDpInf r key = Inr (Some dp)"
    "mapIndex (dpAnnotations dp) ''kolihub.io/build'' \<noteq> ''true''"
  shows "fst (ReleaseController_syncHandler P r key w) = None"
    "actions (snd (ReleaseController_syncHandler P r key w)) = actions w"
    "releases (snd (ReleaseController_syncHandler P r key w)) = releases w"
  using assms by (simp_all add: ReleaseController_syncHandler_def glog_def)
lemma example_release_reach:
  "releaseDpInf exampleReleaseController ''prod-acme-org/web'' = Inr (Some exampleDeployment)"
  "IsValid examplePlatform (dpNamespace exampleDeployment)"
  "mapIndex (dpAnnotations exampleDeployment) ''kolihub.io/build'' = ''true''"
  "dpAnnotations exampleDeployment (AnnotationGitRemote examplePlatform) \<noteq> None"
  by (simp_all add: exampleReleaseController_def exampleStore_def exampleDeployment_def
      examplePlatform_def mapIndex_def)

section \<open>Properties of the release controller\<close>

text \<open>
  C1, as amended. Take a sync of the release controller that reaches the construction of
  the release: the deployment is cached, its namespace is one of the platform, its
  annotation "kolihub.io/build" is "true" and the required key is among its annotations.
  When the create of the release succeeds or is answered "already exists", the sync
  makes one more call, a patch of the deployment (a strategic merge patch) whose payload
  sets the annotation \<open>AnnotationBuild\<close> to "false"; it returns nil whatever the answer to
  the patch, and a failure of the patch is the last line of the log, a warning. When the
  create fails with any other error, the sync returns an error and sends no patch.
\<close>

theorem build_marker_cleared:
  assumes "releaseDpInf r key = Inr (Some dp)" "IsValid P (dpNamespace dp)"
    "mapIndex (dpAnnotations dp) ''kolihub.io/build'' = ''true''"
    "dpAnnotations dp (AnnotationGitRemote P) \<noteq> None"
  shows \<open>(fst (ReleaseCreate (newRelease P dp) w) = None
            \<or> (\<exists>e. fst (ReleaseCreate (newRelease P dp) w) = Some e \<and> IsAlreadyExists e)
          \<longrightarrow> fst (ReleaseController_syncHandler P r key w) = None
              \<and> actions (snd (ReleaseController_syncHandler P r key w))
                  = actions w @ [CreateRelease (newRelease P dp),
                      PatchDeployment (dpNamespace dp) (dpName dp) StrategicMergePatchType
                        (activateBuildPayload P False)]
              \<and> (\<forall>perr. reactor w (Suc (length (actions w)))
                            (PatchDeployment (dpNamespace dp) (dpName dp) StrategicMergePatchType
                               (activateBuildPayload P False)) = Some perr
                    \<longrightarrow> last (logs (snd (ReleaseController_syncHandler P r key w)))
                         = (WARNING, key @ '' - failed deactivating build from deployment [''
                                     @ Error perr @ '']'')))
     \<and> (\<forall>e. fst (ReleaseCreate (newRelease P dp) w) = Some e \<and> \<not> IsAlreadyExists e
          \<longrightarrow> fst (ReleaseController_syncHandler P r key w)
                = Some (Errorf (''failed creating new release: '' @ Error e))
              \<and> actions (snd (ReleaseController_syncHandler P r key w))
                  = actions w @ [CreateRelease (newRelease P dp)])
     \<and> activateBuildPayload P False
         = ''{"metadata": {"annotations": {"'' @ AnnotationBuild P @ ''": "false"}}}''\<close>
proof -
  let ?w0 = "beforeCreate P key dp w"
  have sync: "ReleaseController_syncHandler P r key w
                = createAndDeactivate P key dp (newRelease P dp) ?w0"
    using release_sync_reach[OF assms] .
  have cr: "fst (ReleaseCreate (newRelease P dp) ?w0) = fst (ReleaseCreate (newRelease P dp) w)"
    by (rule ReleaseCreate_beforeCreate)
  have a: "fst (ReleaseCreate (newRelease P dp) w) = None
            \<or> (\<exists>e. fst (ReleaseCreate (newRelease P dp) w) = Some e \<and> IsAlreadyExists e)
          \<Longrightarrow> fst (ReleaseController_syncHandler P r key w) = None
              \<and> actions (snd (ReleaseController_syncHandler P r key w))
                  = actions w @ [CreateRelease (newRelease P dp),
                      PatchDeployment (dpNamespace dp) (dpName dp) StrategicMergePatchType
                        (activateBuildPayload P False)]
              \<and> (\<forall>perr. reactor w (Suc (length (actions w)))
                            (PatchDeployment (dpNamespace dp) (dpName dp) StrategicMergePatchType
                               (activateBuildPayload P False)) = Some perr
                    \<longrightarrow> last (logs (snd (ReleaseController_syncHandler P r key w)))
                         = (WARNING, key @ '' - failed deactivating build from deployment [''
                                     @ Error perr @ '']''))"
  proof -
    assume "fst (ReleaseCreate (newRelease P dp) w) = None
            \<or> (\<exists>e. fst (ReleaseCreate (newRelease P dp) w) = Some e \<and> IsAlreadyExists e)"
    then have ok: "fst (ReleaseCreate (newRelease P dp) ?w0) = None
            \<or> (\<exists>e. fst (ReleaseCreate (newRelease P dp) ?w0) = Some e \<and> IsAlreadyExists e)"
      using cr by simp
    show ?thesis
      using createAndDeactivate_patched(1,2)[OF ok, where P = P and key = key and dp = dp]
        createAndDeactivate_patched(4)[OF ok, where P = P and key = key and dp = dp] sync
      by (simp add: beforeCreate_frame)
  qed
  have b: "\<And>e. fst (ReleaseCreate (newRelease P dp) w) = Some e \<and> \<not> IsAlreadyExists e
          \<Longrightarrow> fst (ReleaseController_syncHandler P r key w)
                = Some (Errorf (''failed creating new release: '' @ Error e))
              \<and> actions (snd (ReleaseController_syncHandler P r key w))
                  = actions w @ [CreateRelease (newRelease P dp)]"
  proof -
    fix e assume h: "fst (ReleaseCreate (newRelease P dp) w) = Some e \<and> \<not> IsAlreadyExists e"
    then have f: "fst (ReleaseCreate (newRelease P dp) ?w0) = Some e" "\<not> IsAlreadyExists e"
      using cr by simp_all
    show "fst (ReleaseController_syncHandler P r key w)
                = Some (Errorf (''failed creating new release: '' @ Error e))
              \<and> actions (snd (ReleaseController_syncHandler P r key w))
                  = actions w @ [CreateRelease (newRelease P dp)]"
      using createAndDeactivate_failed(1,2)[OF f, where P = P and key = key and dp = dp] sync
      by (simp add: beforeCreate_frame)
  qed
  have p: \<open>activateBuildPayload P False
         = ''{"metadata": {"annotations": {"'' @ AnnotationBuild P @ ''": "false"}}}''\<close>
    by (simp add: activateBuildPayload_def)
  show ?thesis
    using a b p by blast
qed
theorem build_marker_cleared_witness:
  \<open>fst (ReleaseController_syncHandler examplePlatform exampleReleaseController
          ''prod-acme-org/web'' emptyWorld) = None
   \<and> actions (snd (ReleaseController_syncHandler examplePlatform exampleReleaseController
          ''prod-acme-org/web'' emptyWorld))
      = [CreateRelease (newRelease examplePlatform exampleDeployment),
         PatchDeployment ''prod-acme-org'' ''web'' StrategicMergePatchType
           ''{"metadata": {"annotations": {"kolihub.io/build": "false"}}}'']
   \<and> fst (ReleaseController_syncHandler examplePlatform exampleReleaseController
          ''prod-acme-org/web''
          (failingWorld isPatchDeployment (StatusError StatusReasonUnknown ''conflict''))) = None
   \<and> last (logs (snd (ReleaseController_syncHandler examplePlatform exampleReleaseController
          ''prod-acme-org/web''
          (failingWorld isPatchDeployment (StatusError StatusReasonUnknown ''conflict'')))))
      = (WARNING, ''prod-acme-org/web - failed deactivating build from deployment [conflict]'')\<close>
proof -
  let ?fw = "failingWorld isPatchDeployment (StatusError StatusReasonUnknown ''conflict'')"
  have c1: "fst (ReleaseCreate (newRelease examplePlatform exampleDeployment) emptyWorld) = None"
    by (simp add: ReleaseCreate_fst emptyWorld_def)
  have c2: "fst (ReleaseCreate (newRelease examplePlatform exampleDeployment) ?fw) = None"
    by (simp add: ReleaseCreate_fst failingWorld_def emptyWorld_def)
  have n: "dpNamespace exampleDeployment = ''prod-acme-org''" "dpName exampleDeployment = ''web''"
    "actions emptyWorld = []"
    by (simp_all add: exampleDeployment_def emptyWorld_def)
  have a: "AnnotationBuild examplePlatform = ''kolihub.io/build''"
    by (simp add: examplePlatform_def)
  have r2: "reactor ?fw (Suc (length (actions ?fw)))
              (PatchDeployment ''prod-acme-org'' ''web'' StrategicMergePatchType
                 (activateBuildPayload examplePlatform False))
            = Some (StatusError StatusReasonUnknown ''conflict'')"
    by (simp add: failingWorld_def emptyWorld_def)
  note T1 = build_marker_cleared[OF example_release_reach, where w = emptyWorld]
  note T2 = build_marker_cleared[OF example_release_reach, where w = ?fw]
  have R1: "fst (ReleaseController_syncHandler examplePlatform exampleReleaseController
          ''prod-acme-org/web'' emptyWorld) = None
     \<and> actions (snd (ReleaseController_syncHandler examplePlatform exampleReleaseController
          ''prod-acme-org/web'' emptyWorld))
        = actions emptyWorld @ [CreateRelease (newRelease examplePlatform exampleDeployment),
            PatchDeployment (dpNamespace exampleDeployment) (dpName exampleDeployment)
              StrategicMergePatchType (activateBuildPayload examplePlatform False)]"
    using T1 c1 by blast
  have P: \<open>activateBuildPayload examplePlatform False
      = ''{"metadata": {"annotations": {"'' @ AnnotationBuild examplePlatform @ ''": "false"}}}''\<close>
    using T1 by blast
  have R2: "fst (ReleaseController_syncHandler examplePlatform exampleReleaseController
          ''prod-acme-org/web'' ?fw) = None
     \<and> last (logs (snd (ReleaseController_syncHandler examplePlatform exampleReleaseController
          ''prod-acme-org/web'' ?fw)))
        = (WARNING, ''prod-acme-org/web'' @ '' - failed deactivating build from deployment [''
                     @ Error (StatusError StatusReasonUnknown ''conflict'') @ '']'')"
    using T2 c2 r2 n(1,2) by (simp del: append.simps)
  show ?thesis
    using R1 R2 P by (simp add: n a)
qed

text \<open>
  C1 as it is stated fails when the create of the release fails with an error other than
  "already exists": on the example deployment, which reaches the construction of the
  release, the sync returns the error of the create and sends no patch.
\<close>

theorem build_marker_cleared_counterexample:
  "IsValid examplePlatform (dpNamespace exampleDeployment)
   \<and> mapIndex (dpAnnotations exampleDeployment) ''kolihub.io/build'' = ''true''
   \<and> validateRequiredKeys examplePlatform exampleDeployment = None
   \<and> fst (ReleaseController_syncHandler examplePlatform exampleReleaseController
          ''prod-acme-org/web''
          (failingWorld isCreateRelease (StatusError StatusReasonUnknown ''etcd unavailable'')))
      = Some (Errorf ''failed creating new release: etcd unavailable'')
   \<and> actions (snd (ReleaseController_syncHandler examplePlatform exampleReleaseController
          ''prod-acme-org/web''
          (failingWorld isCreateRelease (StatusError StatusReasonUnknown ''etcd unavailable''))))
      = [CreateRelease (newRelease examplePlatform exampleDeployment)]"
proof -
  let ?fw = "failingWorld isCreateRelease (StatusError StatusReasonUnknown ''etcd unavailable'')"
  let ?w0 = "beforeCreate examplePlatform ''prod-acme-org/web'' exampleDeployment ?fw"
  have sync: "ReleaseController_syncHandler examplePlatform exampleReleaseController
                ''prod-acme-org/web'' ?fw
              = createAndDeactivate examplePlatform ''prod-acme-org/web'' exampleDeployment
                  (newRelease examplePlatform exampleDeployment) ?w0"
    using release_sync_reach[OF example_release_reach] .
  have f: "fst (ReleaseCreate (newRelease examplePlatform exampleDeployment) ?w0)
             = Some (StatusError StatusReasonUnknown ''etcd unavailable'')"
    unfolding ReleaseCreate_beforeCreate
    by (simp add: ReleaseCreate_fst failingWorld_def emptyWorld_def)
  have g: "\<not> IsAlreadyExists (StatusError StatusReasonUnknown ''etcd unavailable'')"
    by simp
  have a0: "actions ?w0 = []"
    by (simp add: beforeCreate_frame failingWorld_def emptyWorld_def)
  have v: "validateRequiredKeys examplePlatform exampleDeployment = None"
    using example_release_reach(4) by (simp add: validateRequiredKeys_present)
  show ?thesis
    using createAndDeactivate_failed(1,2)[OF f g, where P = examplePlatform
        and key = "''prod-acme-org/web''" and dp = exampleDeployment]
      sync a0 v example_release_reach(2,3)
    by simp
qed

text \<open>
  C7, as amended. A cached deployment in a namespace of the platform whose annotation
  "kolihub.io/build" is "true" and whose annotations lack the required key
  \<open>AnnotationGitRemote\<close>: the sync returns an error, records one event, the warning
  "MissingAnnotationKey" on the deployment, and makes no call, so no release is created.
\<close>

theorem missing_remote:
  assumes "releaseDpInf r key = Inr (Some dp)" "IsValid P (dpNamespace dp)"
    "mapIndex (dpAnnotations dp) ''kolihub.io/build'' = ''true''"
    "dpAnnotations dp (AnnotationGitRemote P) = None"
  shows "fst (ReleaseController_syncHandler P r key w)
           = Some (Errorf (''ValidateRequiredKeys [Missing required key '' @ [CHR 0x27]
                           @ AnnotationGitRemote P @ [CHR 0x27] @ '']''))
     \<and> events (snd (ReleaseController_syncHandler P r key w))
         = events w @ [\<lparr>evKind = ''Deployment'', evNamespace = dpNamespace dp, evName = dpName dp,
                        evType = ''Warning'', evReason = ''MissingAnnotationKey'',
                        evMessage = ''Missing required key '' @ [CHR 0x27]
                           @ AnnotationGitRemote P @ [CHR 0x27]\<rparr>]
     \<and> actions (snd (ReleaseController_syncHandler P r key w)) = actions w
     \<and> releases (snd (ReleaseController_syncHandler P r key w)) = releases w"
  using assms
  by (simp add: ReleaseController_syncHandler_def validateRequiredKeys_def requiredKeys_def
      recorderEvent_def EventTypeWarning_def)

theorem missing_remote_witness:
  "fst (ReleaseController_syncHandler examplePlatform
          \<lparr>releaseDpInf = exampleStore
             (exampleDeployment\<lparr>dpAnnotations := [''kolihub.io/build'' \<mapsto> ''true'']\<rparr>)\<rparr>
          ''prod-acme-org/web'' emptyWorld)
     = Some (Errorf (''ValidateRequiredKeys [Missing required key '' @ [CHR 0x27]
                           @ ''kolihub.io/gitremote'' @ [CHR 0x27] @ '']''))
   \<and> events (snd (ReleaseController_syncHandler examplePlatform
          \<lparr>releaseDpInf = exampleStore
             (exampleDeployment\<lparr>dpAnnotations := [''kolihub.io/build'' \<mapsto> ''true'']\<rparr>)\<rparr>
          ''prod-acme-org/web'' emptyWorld))
     = [\<lparr>evKind = ''Deployment'', evNamespace = ''prod-acme-org'', evName = ''web'',
         evType = ''Warning'', evReason = ''MissingAnnotationKey'',
         evMessage = ''Missing required key '' @ [CHR 0x27] @ ''kolihub.io/gitremote'' @ [CHR 0x27]\<rparr>]
   \<and> actions (snd (ReleaseController_syncHandler examplePlatform
          \<lparr>releaseDpInf = exampleStore
             (exampleDeployment\<lparr>dpAnnotations := [''kolihub.io/build'' \<mapsto> ''true'']\<rparr>)\<rparr>
          ''prod-acme-org/web'' emptyWorld)) = []
   \<and> releases (snd (ReleaseController_syncHandler examplePlatform
          \<lparr>releaseDpInf = exampleStore
             (exampleDeployment\<lparr>dpAnnotations := [''kolihub.io/build'' \<mapsto> ''true'']\<rparr>)\<rparr>
          ''prod-acme-org/web'' emptyWorld)) = []"
proof -
  let ?dp = "exampleDeployment\<lparr>dpAnnotations := [''kolihub.io/build'' \<mapsto> ''true'']\<rparr>"
  have h: "releaseDpInf \<lparr>releaseDpInf = exampleStore ?dp\<rparr> ''prod-acme-org/web'' = Inr (Some ?dp)"
    "IsValid examplePlatform (dpNamespace ?dp)"
    "mapIndex (dpAnnotations ?dp) ''kolihub.io/build'' = ''true''"
    "dpAnnotations ?dp (AnnotationGitRemote examplePlatform) = None"
    by (simp_all add: exampleStore_def exampleDeployment_def examplePlatform_def mapIndex_def)
  have n: "dpNamespace ?dp = ''prod-acme-org''" "dpName ?dp = ''web''"
    "AnnotationGitRemote examplePlatform = ''kolihub.io/gitremote''"
    "events emptyWorld = []" "actions emptyWorld = []" "releases emptyWorld = []"
    by (simp_all add: exampleDeployment_def examplePlatform_def emptyWorld_def)
  show ?thesis
    using missing_remote[OF h, where w = emptyWorld]
    by (simp add: n)
qed

text \<open>
  C7 as it is stated fails on a deployment outside the platform's namespaces: with the
  build annotation "true" and no remote among its annotations, the sync returns nil and
  records no event.
\<close>

theorem missing_remote_counterexample:
  "mapIndex (dpAnnotations (exampleDeployment\<lparr>dpNamespace := ''default'',
                 dpAnnotations := [''kolihub.io/build'' \<mapsto> ''true'']\<rparr>)) ''kolihub.io/build'' = ''true''
   \<and> dpAnnotations (exampleDeployment\<lparr>dpNamespace := ''default'',
                 dpAnnotations := [''kolihub.io/build'' \<mapsto> ''true'']\<rparr>)
        (AnnotationGitRemote examplePlatform) = None
   \<and> fst (ReleaseController_syncHandler examplePlatform
          \<lparr>releaseDpInf = exampleStore
             (exampleDeployment\<lparr>dpNamespace := ''default'',
                 dpAnnotations := [''kolihub.io/build'' \<mapsto> ''true'']\<rparr>)\<rparr>
          ''default/web'' emptyWorld) = None
   \<and> events (snd (ReleaseController_syncHandler examplePlatform
          \<lparr>releaseDpInf = exampleStore
             (exampleDeployment\<lparr>dpNamespace := ''default'',
                 dpAnnotations := [''kolihub.io/build'' \<mapsto> ''true'']\<rparr>)\<rparr>
          ''default/web'' emptyWorld)) = []"
  by (simp add: ReleaseController_syncHandler_def exampleStore_def exampleDeployment_def
      examplePlatform_def emptyWorld_def mapIndex_def glog_def)

lemma newRelease_fields:
  "relName (newRelease P dp) = dpName dp"
  "relNamespace (newRelease P dp) = dpNamespace dp"
  "Build (relSpec (newRelease P dp)) = True"
  "AutoDeploy (relSpec (newRelease P dp))
     = (mapIndex (dpAnnotations dp) (AnnotationAutoDeploy P) = ''true'')"
  "DeployName (relSpec (newRelease P dp)) = dpName dp"
  "GitRemote (relSpec (newRelease P dp)) = mapIndex (dpAnnotations dp) (AnnotationGitRemote P)"
  "GitBranch (relSpec (newRelease P dp)) = mapIndex (dpAnnotations dp) (AnnotationGitBranch P)"
  "GitRepository (relSpec (newRelease P dp))
     = mapIndex (dpAnnotations dp) (AnnotationGitRepository P)"
  "ID (Commit (relSpec (newRelease P dp))) = mapIndex (dpAnnotations dp) (AnnotationGitCommitID P)"
  "Author (Commit (relSpec (newRelease P dp)))
     = mapIndex (dpAnnotations dp) (AnnotationGitAuthorName P)"
  "AvatarURL (Commit (relSpec (newRelease P dp)))
     = mapIndex (dpAnnotations dp) (AnnotationGitAuthorAvatar P)"
  "Compare (Commit (relSpec (newRelease P dp)))
     = mapIndex (dpAnnotations dp) (AnnotationGitCompare P)"
  "Message (Commit (relSpec (newRelease P dp)))
     = mapIndex (dpAnnotations dp) (AnnotationGitCommitMessage P)"
  "URL (Commit (relSpec (newRelease P dp)))
     = mapIndex (dpAnnotations dp) (AnnotationGitCommitURL P)"
  by (simp_all add: newRelease_def Let_def split: option.split)

lemma newRelease_label:
  "AnnotationGitRevision P \<noteq> ''kolihub.io/deploy''
   \<Longrightarrow> relLabels (newRelease P dp) ''kolihub.io/deploy'' = Some (dpName dp)"
  by (simp add: newRelease_def Let_def split: option.split)

lemma one_create:
  assumes "releaseDpInf r key = Inr (Some dp)" "IsValid P (dpNamespace dp)"
    "mapIndex (dpAnnotations dp) ''kolihub.io/build'' = ''true''"
    "dpAnnotations dp (AnnotationGitRemote P) \<noteq> None"
  shows "filter isCreateRelease (actions (snd (ReleaseController_syncHandler P r key w)))
           = filter isCreateRelease (actions w) @ [CreateRelease (newRelease P dp)]"
    "reactor w (length (actions w)) (CreateRelease (newRelease P dp)) = None
     \<Longrightarrow> \<forall>x \<in> set (releases w). \<not> (relNamespace x = dpNamespace dp \<and> relName x = dpName dp)
     \<Longrightarrow> releases (snd (ReleaseController_syncHandler P r key w))
           = releases w @ [newRelease P dp]"
proof -
  let ?rel = "newRelease P dp"
  let ?w0 = "beforeCreate P key dp w"
  have sync: "ReleaseController_syncHandler P r key w = createAndDeactivate P key dp ?rel ?w0"
    using release_sync_reach[OF assms] .
  show "filter isCreateRelease (actions (snd (ReleaseController_syncHandler P r key w)))
           = filter isCreateRelease (actions w) @ [CreateRelease ?rel]"
  proof (cases "fst (ReleaseCreate ?rel ?w0)")
    case None
    then show ?thesis
      using createAndDeactivate_patched(2)[of ?rel ?w0 P key dp] sync
      by (simp add: beforeCreate_frame)
  next
    case (Some e)
    show ?thesis
    proof (cases "IsAlreadyExists e")
      case True
      then show ?thesis
        using createAndDeactivate_patched(2)[of ?rel ?w0 P key dp] sync Some
        by (simp add: beforeCreate_frame)
    next
      case False
      then show ?thesis
        using createAndDeactivate_failed(2)[of ?rel ?w0 e P key dp] sync Some
        by (simp add: beforeCreate_frame)
    qed
  qed
  show "reactor w (length (actions w)) (CreateRelease (newRelease P dp)) = None
     \<Longrightarrow> \<forall>x \<in> set (releases w). \<not> (relNamespace x = dpNamespace dp \<and> relName x = dpName dp)
     \<Longrightarrow> releases (snd (ReleaseController_syncHandler P r key w))
           = releases w @ [newRelease P dp]"
  proof -
    assume q: "reactor w (length (actions w)) (CreateRelease (newRelease P dp)) = None"
      and fr: "\<forall>x \<in> set (releases w). \<not> (relNamespace x = dpNamespace dp \<and> relName x = dpName dp)"
    have c: "fst (ReleaseCreate ?rel ?w0) = None"
      unfolding ReleaseCreate_beforeCreate
      using q fr by (simp add: ReleaseCreate_fst newRelease_fields)
    show ?thesis
      using createAndDeactivate_patched(3)[of ?rel ?w0 P key dp] c sync
        ReleaseCreate_releases[of ?rel ?w0]
      by (simp add: beforeCreate_frame)
  qed
qed

text \<open>
  C2. Take a cached deployment in a namespace of the platform whose annotation
  "kolihub.io/build" is "true" and whose annotations hold the required key, on a
  platform whose key for the revision label is not the key of the deploy label. The sync
  sends exactly one create of a release. That release is named as the deployment, in its
  namespace, with the build flag true, the auto-deploy flag true exactly when the
  auto-deploy annotation is "true", the label "kolihub.io/deploy" equal to the
  deployment's name, and the source-control fields read from the annotations as they
  are. When the control plane does not fail the create and holds no release of that name,
  the release is stored, and it is the only new one. A sync of a deployment whose build
  annotation is not "true" (the marker is cleared) makes no call and stores no release;
  so it is for the deployment as the sync's patch leaves it, where \<open>AnnotationBuild\<close> is
  the key "kolihub.io/build" that the sync reads.
\<close>

theorem one_release_created:
  assumes "releaseDpInf r key = Inr (Some dp)" "IsValid P (dpNamespace dp)"
    "mapIndex (dpAnnotations dp) ''kolihub.io/build'' = ''true''"
    "dpAnnotations dp (AnnotationGitRemote P) \<noteq> None"
    "AnnotationGitRevision P \<noteq> ''kolihub.io/deploy''"
  shows "filter isCreateRelease (actions (snd (ReleaseController_syncHandler P r key w)))
           = filter isCreateRelease (actions w) @ [CreateRelease (newRelease P dp)]
     \<and> relName (newRelease P dp) = dpName dp
     \<and> relNamespace (newRelease P dp) = dpNamespace dp
     \<and> Build (relSpec (newRelease P dp)) = True
     \<and> AutoDeploy (relSpec (newRelease P dp))
         = (mapIndex (dpAnnotations dp) (AnnotationAutoDeploy P) = ''true'')
     \<and> relLabels (newRelease P dp) ''kolihub.io/deploy'' = Some (dpName dp)
     \<and> GitRemote (relSpec (newRelease P dp)) = mapIndex (dpAnnotations dp) (AnnotationGitRemote P)
     \<and> GitBranch (relSpec (newRelease P dp)) = mapIndex (dpAnnotations dp) (AnnotationGitBranch P)
     \<and> GitRepository (relSpec (newRelease P dp))
         = mapIndex (dpAnnotations dp) (AnnotationGitRepository P)
     \<and> ID (Commit (relSpec (newRelease P dp)))
         = mapIndex (dpAnnotations dp) (AnnotationGitCommitID P)
     \<and> Author (Commit (relSpec (newRelease P dp)))
         = mapIndex (dpAnnotations dp) (AnnotationGitAuthorName P)
     \<and> AvatarURL (Commit (relSpec (newRelease P dp)))
         = mapIndex (dpAnnotations dp) (AnnotationGitAuthorAvatar P)
     \<and> Compare (Commit (relSpec (newRelease P dp)))
         = mapIndex (dpAnnotations dp) (AnnotationGitCompare P)
     \<and> Message (Commit (relSpec (newRelease P dp)))
         = mapIndex (dpAnnotations dp) (AnnotationGitCommitMessage P)
     \<and> URL (Commit (relSpec (newRelease P dp)))
         = mapIndex (dpAnnotations dp) (AnnotationGitCommitURL P)
     \<and> (reactor w (length (actions w)) (CreateRelease (newRelease P dp)) = None
          \<and> (\<forall>x \<in> set (releases w).
                 \<not> (relNamespace x = dpNamespace dp \<and> relName x = dpName dp))
         \<longrightarrow> releases (snd (ReleaseController_syncHandler P r key w))
               = releases w @ [newRelease P dp])
     \<and> (\<forall>r' dp' w'. releaseDpInf r' key = Inr (Some dp')
            \<and> mapIndex (dpAnnotations dp') ''kolihub.io/build'' \<noteq> ''true''
         \<longrightarrow> fst (ReleaseController_syncHandler P r' key w') = None
             \<and> actions (snd (ReleaseController_syncHandler P r' key w')) = actions w'
             \<and> releases (snd (ReleaseController_syncHandler P r' key w')) = releases w')
     \<and> (AnnotationBuild P = ''kolihub.io/build'' \<longrightarrow>
          (\<forall>r' w'. releaseDpInf r' key = Inr (Some (mergeAnnotation (AnnotationBuild P) ''false'' dp))
             \<longrightarrow> fst (ReleaseController_syncHandler P r' key w') = None
                 \<and> actions (snd (ReleaseController_syncHandler P r' key w')) = actions w'
                 \<and> releases (snd (ReleaseController_syncHandler P r' key w')) = releases w'))"
proof -
  have old: "filter isCreateRelease (actions (snd (ReleaseController_syncHandler P r key w)))
           = filter isCreateRelease (actions w) @ [CreateRelease (newRelease P dp)]
     \<and> relName (newRelease P dp) = dpName dp
     \<and> relNamespace (newRelease P dp) = dpNamespace dp
     \<and> Build (relSpec (newRelease P dp)) = True
     \<and> AutoDeploy (relSpec (newRelease P dp))
         = (mapIndex (dpAnnotations dp) (AnnotationAutoDeploy P) = ''true'')
     \<and> relLabels (newRelease P dp) ''kolihub.io/deploy'' = Some (dpName dp)
     \<and> GitRemote (relSpec (newRelease P dp)) = mapIndex (dpAnnotations dp) (AnnotationGitRemote P)
     \<and> GitBranch (relSpec (newRelease P dp)) = mapIndex (dpAnnotations dp) (AnnotationGitBranch P)
     \<and> GitRepository (relSpec (newRelease P dp))
         = mapIndex (dpAnnotations dp) (AnnotationGitRepository P)
     \<and> ID (Commit (relSpec (newRelease P dp)))
         = mapIndex (dpAnnotations dp) (AnnotationGitCommitID P)
     \<and> Author (Commit (relSpec (newRelease P dp)))
         = mapIndex (dpAnnotations dp) (AnnotationGitAuthorName P)
     \<and> AvatarURL (Commit (relSpec (newRelease P dp)))
         = mapIndex (dpAnnotations dp) (AnnotationGitAuthorAvatar P)
     \<and> Compare (Commit (relSpec (newRelease P dp)))
         = mapIndex (dpAnnotations dp) (AnnotationGitCompare P)
     \<and> Message (Commit (relSpec (newRelease P dp)))
         = mapIndex (dpAnnotations dp) (AnnotationGitCommitMessage P)
     \<and> URL (Commit (relSpec (newRelease P dp)))
         = mapIndex (dpAnnotations dp) (AnnotationGitCommitURL P)
     \<and> (reactor w (length (actions w)) (CreateRelease (newRelease P dp)) = None
          \<and> (\<forall>x \<in> set (releases w).
                 \<not> (relNamespace x = dpNamespace dp \<and> relName x = dpName dp))
         \<longrightarrow> releases (snd (ReleaseController_syncHandler P r key w))
               = releases w @ [newRelease P dp])
     \<and> (\<forall>r' dp' w'. releaseDpInf r' key = Inr (Some dp')
            \<and> mapIndex (dpAnnotations dp') ''kolihub.io/build'' \<noteq> ''true''
         \<longrightarrow> fst (ReleaseController_syncHandler P r' key w') = None
             \<and> actions (snd (ReleaseController_syncHandler P r' key w')) = actions w'
             \<and> releases (snd (ReleaseController_syncHandler P r' key w')) = releases w')"
    using one_create[OF assms(1-4), of w] newRelease_label[OF assms(5), of dp] release_sync_noop
    by (simp add: newRelease_fields)
  have new: "(AnnotationBuild P = ''kolihub.io/build'' \<longrightarrow>
          (\<forall>r' w'. releaseDpInf r' key = Inr (Some (mergeAnnotation (AnnotationBuild P) ''false'' dp))
             \<longrightarrow> fst (ReleaseController_syncHandler P r' key w') = None
                 \<and> actions (snd (ReleaseController_syncHandler P r' key w')) = actions w'
                 \<and> releases (snd (ReleaseController_syncHandler P r' key w')) = releases w'))"
  proof (intro impI allI)
    fix r' :: ReleaseController and w' :: world
    assume k: "AnnotationBuild P = ''kolihub.io/build''"
      and s: "releaseDpInf r' key = Inr (Some (mergeAnnotation (AnnotationBuild P) ''false'' dp))"
    have m: "mapIndex (dpAnnotations (mergeAnnotation (AnnotationBuild P) ''false'' dp))
               ''kolihub.io/build'' \<noteq> ''true''"
      using k by (simp add: mergeAnnotation_def mapIndex_def)
    show "fst (ReleaseController_syncHandler P r' key w') = None
                 \<and> actions (snd (ReleaseController_syncHandler P r' key w')) = actions w'
                 \<and> releases (snd (ReleaseController_syncHandler P r' key w')) = releases w'"
      using release_sync_noop[OF s m] by blast
  qed
  show ?thesis
    using old new by blast
qed

theorem one_release_created_witness:
  "actions (snd (ReleaseController_syncHandler examplePlatform exampleReleaseController
           ''prod-acme-org/web'' emptyWorld))
     = [CreateRelease (newRelease examplePlatform exampleDeployment),
        PatchDeployment ''prod-acme-org'' ''web'' StrategicMergePatchType
          (activateBuildPayload examplePlatform False)]
   \<and> releases (snd (ReleaseController_syncHandler examplePlatform exampleReleaseController
           ''prod-acme-org/web'' emptyWorld))
     = [newRelease examplePlatform exampleDeployment]
   \<and> relName (newRelease examplePlatform exampleDeployment) = ''web''
   \<and> Build (relSpec (newRelease examplePlatform exampleDeployment)) = True
   \<and> AutoDeploy (relSpec (newRelease examplePlatform exampleDeployment)) = True
   \<and> relLabels (newRelease examplePlatform exampleDeployment) ''kolihub.io/deploy'' = Some ''web''
   \<and> GitRemote (relSpec (newRelease examplePlatform exampleDeployment))
       = ''https://git.example/acme/web.git''
   \<and> GitBranch (relSpec (newRelease examplePlatform exampleDeployment)) = ''master''
   \<and> actions (snd (ReleaseController_syncHandler examplePlatform
          \<lparr>releaseDpInf = exampleStore
             (mergeAnnotation ''kolihub.io/build'' ''false'' exampleDeployment)\<rparr>
          ''prod-acme-org/web''
          (snd (ReleaseController_syncHandler examplePlatform exampleReleaseController
                  ''prod-acme-org/web'' emptyWorld))))
     = [CreateRelease (newRelease examplePlatform exampleDeployment),
        PatchDeployment ''prod-acme-org'' ''web'' StrategicMergePatchType
          (activateBuildPayload examplePlatform False)]
   \<and> releases (snd (ReleaseController_syncHandler examplePlatform
          \<lparr>releaseDpInf = exampleStore
             (mergeAnnotation ''kolihub.io/build'' ''false'' exampleDeployment)\<rparr>
          ''prod-acme-org/web''
          (snd (ReleaseController_syncHandler examplePlatform exampleReleaseController
                  ''prod-acme-org/web'' emptyWorld))))
     = [newRelease examplePlatform exampleDeployment]"
proof -
  let ?dp' = "mergeAnnotation ''kolihub.io/build'' ''false'' exampleDeployment"
  let ?r' = "\<lparr>releaseDpInf = exampleStore ?dp'\<rparr>"
  let ?w1 = "snd (ReleaseController_syncHandler examplePlatform exampleReleaseController
                  ''prod-acme-org/web'' emptyWorld)"
  have g: "AnnotationGitRevision examplePlatform \<noteq> ''kolihub.io/deploy''"
    by (simp add: examplePlatform_def)
  note T = one_release_created[OF example_release_reach g, where w = emptyWorld]
  have q: "reactor emptyWorld (length (actions emptyWorld))
             (CreateRelease (newRelease examplePlatform exampleDeployment)) = None
          \<and> (\<forall>x \<in> set (releases emptyWorld).
                 \<not> (relNamespace x = dpNamespace exampleDeployment
                     \<and> relName x = dpName exampleDeployment))"
    by (simp add: emptyWorld_def)
  have rel: "releases ?w1 = releases emptyWorld @ [newRelease examplePlatform exampleDeployment]"
    using T q by blast
  have noop: "releaseDpInf ?r' ''prod-acme-org/web'' = Inr (Some ?dp')
            \<and> mapIndex (dpAnnotations ?dp') ''kolihub.io/build'' \<noteq> ''true''"
    by (simp add: exampleStore_def exampleDeployment_def mapIndex_def mergeAnnotation_def)
  have second: "actions (snd (ReleaseController_syncHandler examplePlatform ?r'
                   ''prod-acme-org/web'' ?w1)) = actions ?w1
      \<and> releases (snd (ReleaseController_syncHandler examplePlatform ?r'
                   ''prod-acme-org/web'' ?w1)) = releases ?w1"
    using T noop by blast
  have c1: "fst (ReleaseCreate (newRelease examplePlatform exampleDeployment)
                  (beforeCreate examplePlatform ''prod-acme-org/web'' exampleDeployment emptyWorld))
            = None"
    unfolding ReleaseCreate_beforeCreate by (simp add: ReleaseCreate_fst emptyWorld_def)
  have acts: "actions ?w1 = [CreateRelease (newRelease examplePlatform exampleDeployment),
        PatchDeployment ''prod-acme-org'' ''web'' StrategicMergePatchType
          (activateBuildPayload examplePlatform False)]"
    using createAndDeactivate_patched(2)[where rel = "newRelease examplePlatform exampleDeployment"
        and w = "beforeCreate examplePlatform ''prod-acme-org/web'' exampleDeployment emptyWorld"
        and P = examplePlatform and key = "''prod-acme-org/web''" and dp = exampleDeployment]
      c1 release_sync_reach[OF example_release_reach, of emptyWorld]
    by (simp add: beforeCreate_frame emptyWorld_def exampleDeployment_def)
  have fields: "relName (newRelease examplePlatform exampleDeployment) = dpName exampleDeployment
     \<and> Build (relSpec (newRelease examplePlatform exampleDeployment)) = True
     \<and> AutoDeploy (relSpec (newRelease examplePlatform exampleDeployment))
         = (mapIndex (dpAnnotations exampleDeployment) (AnnotationAutoDeploy examplePlatform) = ''true'')
     \<and> relLabels (newRelease examplePlatform exampleDeployment) ''kolihub.io/deploy''
         = Some (dpName exampleDeployment)
     \<and> GitRemote (relSpec (newRelease examplePlatform exampleDeployment))
         = mapIndex (dpAnnotations exampleDeployment) (AnnotationGitRemote examplePlatform)
     \<and> GitBranch (relSpec (newRelease examplePlatform exampleDeployment))
         = mapIndex (dpAnnotations exampleDeployment) (AnnotationGitBranch examplePlatform)"
    using T by blast
  have n: "dpName exampleDeployment = ''web''"
    "mapIndex (dpAnnotations exampleDeployment) (AnnotationAutoDeploy examplePlatform) = ''true''"
    "mapIndex (dpAnnotations exampleDeployment) (AnnotationGitRemote examplePlatform)
       = ''https://git.example/acme/web.git''"
    "mapIndex (dpAnnotations exampleDeployment) (AnnotationGitBranch examplePlatform) = ''master''"
    "releases emptyWorld = []"
    by (simp_all add: exampleDeployment_def examplePlatform_def mapIndex_def emptyWorld_def)
  show ?thesis
    using rel second acts fields by (simp add: n)
qed

section \<open>Lemmas on the work queue\<close>

lemma Get_first:
  "items q = k # rest \<Longrightarrow> Get q = Some (Some k, False, afterGet k rest q)"
  by (simp add: Get_def afterGet_def)

lemma backoffDelay_min:
  "backoffDelay (5 * Millisecond) (1000 * Second) n = min (5000000 * 2 ^ n) 1000000000000"
  by (simp add: backoffDelay_def Millisecond_def Second_def MaxInt64_def min_def)

lemma backoffDelay_pos: "0 < backoffDelay (5 * Millisecond) (1000 * Second) n"
  by (simp add: backoffDelay_min)

lemma Done_Forget:
  "k \<notin> processing (Done k (Forget k q))"
  "failures (Done k (Forget k q)) k = None"
  "NumRequeues k (Done k (Forget k q)) = 0"
  by (simp_all add: Done_def Forget_def NumRequeues_def)

lemma Done_AddRateLimited:
  "k \<notin> processing (Done k (AddRateLimited k q))"
  "NumRequeues k (Done k (AddRateLimited k q)) = NumRequeues k q + 1"
  "\<not> shuttingDown q \<Longrightarrow>
     waitingForAdd (Done k (AddRateLimited k q))
       = waitingForAdd q @ [(k, max (backoffDelay (5 * Millisecond) (1000 * Second) (NumRequeues k q))
                                    (bucket q (reservations q)))]"
proof -
  have pos: "\<not> max (backoffDelay (5 * Millisecond) (1000 * Second) (NumRequeues k q))
                   (bucket q (reservations q)) \<le> 0"
    using backoffDelay_pos[of "NumRequeues k q"] by simp
  show "k \<notin> processing (Done k (AddRateLimited k q))"
    by (simp add: Done_def AddRateLimited_def When_def AddAfter_def Add_def)
  show "NumRequeues k (Done k (AddRateLimited k q)) = NumRequeues k q + 1"
    using pos by (auto simp add: Done_def AddRateLimited_def When_def AddAfter_def Add_def NumRequeues_def)
  show "\<not> shuttingDown q \<Longrightarrow>
     waitingForAdd (Done k (AddRateLimited k q))
       = waitingForAdd q @ [(k, max (backoffDelay (5 * Millisecond) (1000 * Second) (NumRequeues k q))
                                    (bucket q (reservations q)))]"
    using pos by (auto simp add: Done_def AddRateLimited_def When_def AddAfter_def)
qed

lemma afterGet_frame:
  "NumRequeues k (afterGet k rest q) = NumRequeues k q"
  "shuttingDown (afterGet k rest q) = shuttingDown q"
  "waitingForAdd (afterGet k rest q) = waitingForAdd q"
  "bucket (afterGet k rest q) = bucket q"
  "reservations (afterGet k rest q) = reservations q"
  "k \<in> processing (afterGet k rest q)"
  by (simp_all add: afterGet_def NumRequeues_def)

section \<open>Properties of the task queue\<close>

text \<open>
  C9. A worker whose queue hands out the key \<open>k\<close> logs it and runs the sync function on it
  once: the world it leaves is the one that this one run returns (with the requeue line
  of the log after a failure). After a sync that returned nil the queue is the one after
  \<open>Forget\<close> and then \<open>Done\<close>: the key has no failure on record, so that its next failure
  waits the base delay of five milliseconds, and it is not being processed. After a sync
  that returned an error the queue is the one after \<open>AddRateLimited\<close> and then \<open>Done\<close>: the
  key has one failure more on record, it is not being processed, and, unless the queue
  is shutting down, it waits to be added again after the larger of the token bucket's
  delay and the backoff \<open>5 ms * 2 ^ failures\<close>, which is bounded by 1000 seconds.
\<close>

theorem worker_reports_completion:
  assumes "items (queue t) = k # rest"
  shows "Get (queue t) = Some (Some k, False, afterGet k rest (queue t))
     \<and> k \<in> processing (afterGet k rest (queue t))
     \<and> processNextWorkItem t w
         = (case sync t k (glog (INFO_V 3) (''Syncing '' @ k) w) of
              (None, w') \<Rightarrow>
                Returns (t\<lparr>queue := Done k (Forget k (afterGet k rest (queue t)))\<rparr>, w')
            | (Some err, w') \<Rightarrow>
                Returns (t\<lparr>queue := Done k (AddRateLimited k (afterGet k rest (queue t)))\<rparr>,
                         glog ERROR (''Requeuing '' @ k @ '', err: '' @ Error err) w'))
     \<and> k \<notin> processing (Done k (Forget k (afterGet k rest (queue t))))
     \<and> NumRequeues k (Done k (Forget k (afterGet k rest (queue t)))) = 0
     \<and> backoffDelay (5 * Millisecond) (1000 * Second)
          (NumRequeues k (Done k (Forget k (afterGet k rest (queue t))))) = 5 * Millisecond
     \<and> k \<notin> processing (Done k (AddRateLimited k (afterGet k rest (queue t))))
     \<and> NumRequeues k (Done k (AddRateLimited k (afterGet k rest (queue t))))
         = NumRequeues k (queue t) + 1
     \<and> (\<not> shuttingDown (queue t) \<longrightarrow>
          waitingForAdd (Done k (AddRateLimited k (afterGet k rest (queue t))))
            = waitingForAdd (queue t)
              @ [(k, max (backoffDelay (5 * Millisecond) (1000 * Second) (NumRequeues k (queue t)))
                         (bucket (queue t) (reservations (queue t))))])
     \<and> (\<forall>n. backoffDelay (5 * Millisecond) (1000 * Second) n
              = min (5000000 * 2 ^ n) 1000000000000)"
proof -
  let ?q = "afterGet k rest (queue t)"
  have g: "Get (queue t) = Some (Some k, False, ?q)"
    using Get_first[OF assms] .
  have p: "processNextWorkItem t w
         = (case sync t k (glog (INFO_V 3) (''Syncing '' @ k) w) of
              (None, w') \<Rightarrow> Returns (t\<lparr>queue := Done k (Forget k ?q)\<rparr>, w')
            | (Some err, w') \<Rightarrow>
                Returns (t\<lparr>queue := Done k (AddRateLimited k ?q)\<rparr>,
                         glog ERROR (''Requeuing '' @ k @ '', err: '' @ Error err) w'))"
    using g by (simp add: processNextWorkItem_def split: prod.split option.split)
  have b0: "backoffDelay (5 * Millisecond) (1000 * Second) (NumRequeues k (Done k (Forget k ?q)))
              = 5 * Millisecond"
    by (simp add: Done_Forget(3) backoffDelay_def Millisecond_def Second_def MaxInt64_def)
  have w: "\<not> shuttingDown (queue t) \<longrightarrow>
          waitingForAdd (Done k (AddRateLimited k ?q))
            = waitingForAdd (queue t)
              @ [(k, max (backoffDelay (5 * Millisecond) (1000 * Second) (NumRequeues k (queue t)))
                         (bucket (queue t) (reservations (queue t))))]"
    using Done_AddRateLimited(3)[of ?q k] by (simp add: afterGet_frame)
  have n: "NumRequeues k (Done k (AddRateLimited k ?q)) = NumRequeues k (queue t) + 1"
    using Done_AddRateLimited(2)[of k ?q] by (simp add: afterGet_frame)
  show ?thesis
    using g p b0 w n Done_Forget(1,3)[of k ?q] Done_AddRateLimited(1)[of k ?q]
      afterGet_frame(6)[of k rest "queue t"] backoffDelay_min
    by blast
qed
theorem worker_reports_completion_witness:
  "processNextWorkItem (exampleTaskQueue (\<lambda>k. Inr None)) emptyWorld
     = Returns (exampleTaskQueue (\<lambda>k. Inr None)
                  \<lparr>queue := Done ''web'' (Forget ''web'' (afterGet ''web'' [] exampleQueue))\<rparr>,
                emptyWorld\<lparr>logs := [(INFO_V 3, ''Syncing web''),
                                     (INFO_V 3, ''web - the deployment doesn't exists'')]\<rparr>)
   \<and> NumRequeues ''web'' exampleQueue = 3
   \<and> NumRequeues ''web'' (Done ''web'' (Forget ''web'' (afterGet ''web'' [] exampleQueue))) = 0
   \<and> ''web'' \<notin> processing (Done ''web'' (Forget ''web'' (afterGet ''web'' [] exampleQueue)))
   \<and> processNextWorkItem (exampleTaskQueue (\<lambda>k. Inl (StoreError ''store closed''))) emptyWorld
     = Returns (exampleTaskQueue (\<lambda>k. Inl (StoreError ''store closed''))
                  \<lparr>queue := Done ''web'' (AddRateLimited ''web'' (afterGet ''web'' [] exampleQueue))\<rparr>,
                emptyWorld\<lparr>logs := [(INFO_V 3, ''Syncing web''),
                    (WARNING, ''web - failed retrieving object from store [store closed]''),
                    (ERROR, ''Requeuing web, err: store closed'')]\<rparr>)
   \<and> NumRequeues ''web'' (Done ''web'' (AddRateLimited ''web'' (afterGet ''web'' [] exampleQueue))) = 4
   \<and> ''web'' \<notin> processing (Done ''web'' (AddRateLimited ''web'' (afterGet ''web'' [] exampleQueue)))
   \<and> waitingForAdd (Done ''web'' (AddRateLimited ''web'' (afterGet ''web'' [] exampleQueue)))
     = [(''web'', 40000000)]"
proof -
  let ?t1 = "exampleTaskQueue (\<lambda>k. Inr None)"
  let ?t2 = "exampleTaskQueue (\<lambda>k. Inl (StoreError ''store closed''))"
  have i1: "items (queue ?t1) = ''web'' # []" and i2: "items (queue ?t2) = ''web'' # []"
    by (simp_all add: exampleTaskQueue_def exampleQueue_def)
  have q: "queue ?t1 = exampleQueue" "queue ?t2 = exampleQueue"
    by (simp_all add: exampleTaskQueue_def)
  have s1: "sync ?t1 ''web'' (glog (INFO_V 3) (''Syncing '' @ ''web'') emptyWorld)
      = (None, emptyWorld\<lparr>logs := [(INFO_V 3, ''Syncing web''),
                                     (INFO_V 3, ''web - the deployment doesn't exists'')]\<rparr>)"
    by (simp add: exampleTaskQueue_def AppManagerController_syncHandler_def glog_def
        emptyWorld_def Let_def)
  have s2: "sync ?t2 ''web'' (glog (INFO_V 3) (''Syncing '' @ ''web'') emptyWorld)
      = (Some (StoreError ''store closed''),
         emptyWorld\<lparr>logs := [(INFO_V 3, ''Syncing web''),
                    (WARNING, ''web - failed retrieving object from store [store closed]'')]\<rparr>)"
    by (simp add: exampleTaskQueue_def AppManagerController_syncHandler_def glog_def
        emptyWorld_def)
  have e: "NumRequeues ''web'' exampleQueue = 3" "\<not> shuttingDown exampleQueue"
    "waitingForAdd exampleQueue = []" "bucket exampleQueue (reservations exampleQueue) = 0"
    by (simp_all add: exampleQueue_def NumRequeues_def)
  have d: "backoffDelay (5 * Millisecond) (1000 * Second) 3 = 40000000"
    by (simp add: backoffDelay_def Millisecond_def Second_def MaxInt64_def)
  note T1 = worker_reports_completion[OF i1, where w = emptyWorld]
  note T2 = worker_reports_completion[OF i2, where w = emptyWorld]
  have P1: "processNextWorkItem ?t1 emptyWorld
         = (case sync ?t1 ''web'' (glog (INFO_V 3) (''Syncing '' @ ''web'') emptyWorld) of
              (None, w') \<Rightarrow>
                Returns (?t1\<lparr>queue := Done ''web'' (Forget ''web'' (afterGet ''web'' [] (queue ?t1)))\<rparr>, w')
            | (Some err, w') \<Rightarrow>
                Returns (?t1\<lparr>queue := Done ''web'' (AddRateLimited ''web'' (afterGet ''web'' [] (queue ?t1)))\<rparr>,
                         glog ERROR (''Requeuing '' @ ''web'' @ '', err: '' @ Error err) w'))"
    using T1 by blast
  have P2: "processNextWorkItem ?t2 emptyWorld
         = (case sync ?t2 ''web'' (glog (INFO_V 3) (''Syncing '' @ ''web'') emptyWorld) of
              (None, w') \<Rightarrow>
                Returns (?t2\<lparr>queue := Done ''web'' (Forget ''web'' (afterGet ''web'' [] (queue ?t2)))\<rparr>, w')
            | (Some err, w') \<Rightarrow>
                Returns (?t2\<lparr>queue := Done ''web'' (AddRateLimited ''web'' (afterGet ''web'' [] (queue ?t2)))\<rparr>,
                         glog ERROR (''Requeuing '' @ ''web'' @ '', err: '' @ Error err) w'))"
    using T2 by blast
  have R1: "processNextWorkItem ?t1 emptyWorld
     = Returns (?t1\<lparr>queue := Done ''web'' (Forget ''web'' (afterGet ''web'' [] exampleQueue))\<rparr>,
                emptyWorld\<lparr>logs := [(INFO_V 3, ''Syncing web''),
                                     (INFO_V 3, ''web - the deployment doesn't exists'')]\<rparr>)"
    unfolding P1 s1 q by simp
  have R2: "processNextWorkItem ?t2 emptyWorld
     = Returns (?t2\<lparr>queue := Done ''web'' (AddRateLimited ''web'' (afterGet ''web'' [] exampleQueue))\<rparr>,
                emptyWorld\<lparr>logs := [(INFO_V 3, ''Syncing web''),
                    (WARNING, ''web - failed retrieving object from store [store closed]''),
                    (ERROR, ''Requeuing web, err: store closed'')]\<rparr>)"
    unfolding P2 s2 q by (simp add: glog_def emptyWorld_def)
  have F: "NumRequeues ''web'' (Done ''web'' (Forget ''web'' (afterGet ''web'' [] (queue ?t1)))) = 0
      \<and> ''web'' \<notin> processing (Done ''web'' (Forget ''web'' (afterGet ''web'' [] (queue ?t1))))
      \<and> ''web'' \<notin> processing (Done ''web'' (AddRateLimited ''web'' (afterGet ''web'' [] (queue ?t1))))
      \<and> NumRequeues ''web'' (Done ''web'' (AddRateLimited ''web'' (afterGet ''web'' [] (queue ?t1))))
          = NumRequeues ''web'' (queue ?t1) + 1"
    using T1 by blast
  have W: "waitingForAdd (Done ''web'' (AddRateLimited ''web'' (afterGet ''web'' [] (queue ?t1))))
            = waitingForAdd (queue ?t1)
              @ [(''web'', max (backoffDelay (5 * Millisecond) (1000 * Second)
                                  (NumRequeues ''web'' (queue ?t1)))
                         (bucket (queue ?t1) (reservations (queue ?t1))))]"
    using T1 e(2) q(1) by simp
  show ?thesis
    using R1 R2 F W by (simp add: q e d)
qed

section \<open>Lemmas on the readiness poll\<close>

lemma crdReady_snd:
  "snd (crdReady name w) = called (GetCustomResourceDefinition name) w"
  by (simp add: crdReady_def CustomResourceDefinitionsGet_def split: option.split)

lemma crdReady_fst: "fst (crdReady name w) = observe name w 0"
  by (auto simp add: crdReady_def CustomResourceDefinitionsGet_def observe_def readAt_def react_def
      split: option.split)

lemma observe_called: "observe name (called a w) j = observe name w (Suc j)"
  by (auto simp add: observe_def readAt_def called_def split: option.split)

lemma called_funpow_actions:
  "length (actions ((called a ^^ m) w)) = length (actions w) + m"
  by (induction m) (simp_all add: called_def)

lemma WaitFor_step:
  "WaitFor (Suc n) (crdReady name) w
     = (case observe name w 0 of
          Inl err \<Rightarrow> (Some err, called (GetCustomResourceDefinition name) w)
        | Inr ok \<Rightarrow>
            if ok then (None, called (GetCustomResourceDefinition name) w)
            else WaitFor n (crdReady name) (called (GetCustomResourceDefinition name) w))"
proof -
  have "crdReady name w = (observe name w 0, called (GetCustomResourceDefinition name) w)"
    by (simp add: prod_eq_iff crdReady_fst crdReady_snd)
  then show ?thesis
    by (simp split: sum.split)
qed

lemma WaitFor_success:
  "k < n \<Longrightarrow> \<forall>j<k. observe name w j = Inr False \<Longrightarrow> observe name w k = Inr True \<Longrightarrow>
     WaitFor n (crdReady name) w = (None, (called (GetCustomResourceDefinition name) ^^ Suc k) w)"
proof (induction n arbitrary: w k)
  case 0
  then show ?case by simp
next
  case (Suc n)
  show ?case
  proof (cases k)
    case 0
    then show ?thesis using Suc.prems by (simp add: WaitFor_step del: WaitFor.simps)
  next
    case (Suc k')
    let ?w' = "called (GetCustomResourceDefinition name) w"
    have f0: "observe name w 0 = Inr False" using Suc.prems Suc by simp
    have sh: "\<forall>j<k'. observe name ?w' j = Inr False"
      using Suc.prems Suc by (simp add: observe_called)
    have ok: "observe name ?w' k' = Inr True"
      using Suc.prems Suc by (simp add: observe_called)
    have lt: "k' < n" using Suc.prems Suc by simp
    show ?thesis
      using Suc.IH[OF lt sh ok] f0 Suc
      by (simp add: WaitFor_step funpow_swap1 del: WaitFor.simps)
  qed
qed

lemma WaitFor_error:
  "k < n \<Longrightarrow> \<forall>j<k. observe name w j = Inr False \<Longrightarrow> observe name w k = Inl e \<Longrightarrow>
     WaitFor n (crdReady name) w = (Some e, (called (GetCustomResourceDefinition name) ^^ Suc k) w)"
proof (induction n arbitrary: w k)
  case 0
  then show ?case by simp
next
  case (Suc n)
  show ?case
  proof (cases k)
    case 0
    then show ?thesis using Suc.prems by (simp add: WaitFor_step del: WaitFor.simps)
  next
    case (Suc k')
    let ?w' = "called (GetCustomResourceDefinition name) w"
    have f0: "observe name w 0 = Inr False" using Suc.prems Suc by simp
    have sh: "\<forall>j<k'. observe name ?w' j = Inr False"
      using Suc.prems Suc by (simp add: observe_called)
    have ok: "observe name ?w' k' = Inl e"
      using Suc.prems Suc by (simp add: observe_called)
    have lt: "k' < n" using Suc.prems Suc by simp
    show ?thesis
      using Suc.IH[OF lt sh ok] f0 Suc
      by (simp add: WaitFor_step funpow_swap1 del: WaitFor.simps)
  qed
qed

lemma WaitFor_timeout:
  "\<forall>j<n. observe name w j = Inr False \<Longrightarrow>
     WaitFor n (crdReady name) w
       = (Some ErrWaitTimeout, (called (GetCustomResourceDefinition name) ^^ n) w)"
proof (induction n arbitrary: w)
  case 0
  then show ?case by simp
next
  case (Suc n)
  let ?w' = "called (GetCustomResourceDefinition name) w"
  have f0: "observe name w 0 = Inr False" using Suc.prems by simp
  have sh: "\<forall>j<n. observe name ?w' j = Inr False"
    using Suc.prems by (simp add: observe_called)
  show ?case
    using Suc.IH[OF sh] f0 by (simp add: WaitFor_step funpow_swap1 del: WaitFor.simps)
qed

lemma checkConditions_find:
  "checkConditions conds
     = (case find decisive conds of
          None \<Rightarrow> Inr False
        | Some c \<Rightarrow>
            if condType c = Established then Inr True
            else Inl (Errorf (''Name conflict: '' @ condReason c)))"
  by (induction conds)
     (auto simp add: decisive_def Established_def NamesAccepted_def ConditionTrue_def
        ConditionFalse_def)

lemma waitCRDReady_WaitFor:
  "waitCRDReady runs name w = WaitFor (allowedRuns runs) (crdReady name) w"
  by (simp add: waitCRDReady_def Poll_def allowedRuns_def)

lemma allowedRuns_bounds: "1 \<le> allowedRuns runs" "allowedRuns runs \<le> 31"
  by (simp_all add: allowedRuns_def Second_def)
section \<open>Properties of the readiness poll\<close>

text \<open>
  C4, as amended. \<open>waitCRDReady\<close> polls with an interval of one second and a timeout of
  thirty: it runs its condition at least once and at most thirty-one times, each run
  being one read of the type. A read that fails ends the poll at once with the read's
  error. A read that succeeds is decided by the first condition of its list that is
  Established with status True (the poll ends at once with nil) or NamesAccepted with
  status False (the poll ends at once with the error "Name conflict: <reason>"); a list
  with neither leaves the poll going. When no run decides, the poll ends after its last
  run with \<open>ErrWaitTimeout\<close>, an error other than the name conflict, with another
  message. In each case the number of reads made is given.
\<close>

theorem crd_readiness_poll:
  \<open>(\<forall>k<allowedRuns runs.
       (\<forall>j<k. observe name w j = Inr False) \<and> observe name w k = Inr True
       \<longrightarrow> fst (waitCRDReady runs name w) = None
           \<and> length (actions (snd (waitCRDReady runs name w))) = length (actions w) + Suc k)
   \<and> (\<forall>k<allowedRuns runs. \<forall>e.
       (\<forall>j<k. observe name w j = Inr False) \<and> observe name w k = Inl e
       \<longrightarrow> fst (waitCRDReady runs name w) = Some e
           \<and> length (actions (snd (waitCRDReady runs name w))) = length (actions w) + Suc k)
   \<and> ((\<forall>j<allowedRuns runs. observe name w j = Inr False)
       \<longrightarrow> fst (waitCRDReady runs name w) = Some ErrWaitTimeout
           \<and> length (actions (snd (waitCRDReady runs name w)))
               = length (actions w) + allowedRuns runs)
   \<and> (\<forall>j. observe name w j
            = (case readAt name w j of
                 Inl e \<Rightarrow> Inl e
               | Inr conds \<Rightarrow>
                   (case find decisive conds of
                      None \<Rightarrow> Inr False
                    | Some c \<Rightarrow>
                        if condType c = Established then Inr True
                        else Inl (Errorf (''Name conflict: '' @ condReason c)))))
   \<and> (\<forall>reason. Errorf (''Name conflict: '' @ reason) \<noteq> ErrWaitTimeout
         \<and> Error (Errorf (''Name conflict: '' @ reason)) \<noteq> Error ErrWaitTimeout)
   \<and> 1 \<le> allowedRuns runs \<and> allowedRuns runs \<le> 31
   \<and> waitCRDReady runs name w = Poll runs (1 * Second) (30 * Second) (crdReady name) w\<close>
proof -
  let ?g = "GetCustomResourceDefinition name"
  have a: "\<forall>k<allowedRuns runs.
       (\<forall>j<k. observe name w j = Inr False) \<and> observe name w k = Inr True
       \<longrightarrow> fst (waitCRDReady runs name w) = None
           \<and> length (actions (snd (waitCRDReady runs name w))) = length (actions w) + Suc k"
  proof (intro allI impI)
    fix k assume k: "k < allowedRuns runs"
      and h: "(\<forall>j<k. observe name w j = Inr False) \<and> observe name w k = Inr True"
    have "waitCRDReady runs name w = (None, (called ?g ^^ Suc k) w)"
      using WaitFor_success[OF k, where name = name and w = w] h by (simp add: waitCRDReady_WaitFor)
    then show "fst (waitCRDReady runs name w) = None
           \<and> length (actions (snd (waitCRDReady runs name w))) = length (actions w) + Suc k"
      using called_funpow_actions[where a = ?g and m = "Suc k" and w = w] by simp
  qed
  have b: "\<forall>k<allowedRuns runs. \<forall>e.
       (\<forall>j<k. observe name w j = Inr False) \<and> observe name w k = Inl e
       \<longrightarrow> fst (waitCRDReady runs name w) = Some e
           \<and> length (actions (snd (waitCRDReady runs name w))) = length (actions w) + Suc k"
  proof (intro allI impI)
    fix k e assume k: "k < allowedRuns runs"
      and h: "(\<forall>j<k. observe name w j = Inr False) \<and> observe name w k = Inl e"
    have "waitCRDReady runs name w = (Some e, (called ?g ^^ Suc k) w)"
      using WaitFor_error[OF k, where name = name and w = w and e = e] h by (simp add: waitCRDReady_WaitFor)
    then show "fst (waitCRDReady runs name w) = Some e
           \<and> length (actions (snd (waitCRDReady runs name w))) = length (actions w) + Suc k"
      using called_funpow_actions[where a = ?g and m = "Suc k" and w = w] by simp
  qed
  have c: "(\<forall>j<allowedRuns runs. observe name w j = Inr False)
       \<longrightarrow> fst (waitCRDReady runs name w) = Some ErrWaitTimeout
           \<and> length (actions (snd (waitCRDReady runs name w)))
               = length (actions w) + allowedRuns runs"
  proof
    assume h: "\<forall>j<allowedRuns runs. observe name w j = Inr False"
    have "waitCRDReady runs name w = (Some ErrWaitTimeout, (called ?g ^^ allowedRuns runs) w)"
      using WaitFor_timeout[OF h] by (simp add: waitCRDReady_WaitFor)
    then show "fst (waitCRDReady runs name w) = Some ErrWaitTimeout
           \<and> length (actions (snd (waitCRDReady runs name w)))
               = length (actions w) + allowedRuns runs"
      using called_funpow_actions[where a = ?g and m = "allowedRuns runs" and w = w] by simp
  qed
  have d: "\<forall>j. observe name w j
            = (case readAt name w j of
                 Inl e \<Rightarrow> Inl e
               | Inr conds \<Rightarrow>
                   (case find decisive conds of
                      None \<Rightarrow> Inr False
                    | Some c \<Rightarrow>
                        if condType c = Established then Inr True
                        else Inl (Errorf (''Name conflict: '' @ condReason c))))"
    by (simp add: observe_def checkConditions_find split: sum.split)
  have e: "\<forall>reason. Errorf (''Name conflict: '' @ reason) \<noteq> ErrWaitTimeout
         \<and> Error (Errorf (''Name conflict: '' @ reason)) \<noteq> Error ErrWaitTimeout"
    by simp
  have f: "waitCRDReady runs name w = Poll runs (1 * Second) (30 * Second) (crdReady name) w"
    by (simp add: waitCRDReady_def)
  show ?thesis
    using a b c d e f allowedRuns_bounds[of runs] by blast
qed

lemma allowedRuns_30: "allowedRuns 30 = 30"
  by (simp add: allowedRuns_def Second_def)

lemma observe_crdWorld:
  "observe ''plans.platform.koli.io'' (crdWorld conds) j = checkConditions (conds j)"
  by (simp add: observe_def readAt_def crdWorld_def emptyWorld_def)

lemma actions_crdWorld: "actions (crdWorld conds) = []"
  by (simp add: crdWorld_def emptyWorld_def)

theorem crd_readiness_poll_witness:
  "fst (waitCRDReady 30 ''plans.platform.koli.io''
          (crdWorld (\<lambda>n. if n < 3 then [] else establishedConditions))) = None
   \<and> length (actions (snd (waitCRDReady 30 ''plans.platform.koli.io''
          (crdWorld (\<lambda>n. if n < 3 then [] else establishedConditions))))) = 4
   \<and> fst (waitCRDReady 30 ''plans.platform.koli.io''
          (crdWorld (\<lambda>n. if n < 1 then [] else conflictConditions)))
       = Some (Errorf ''Name conflict: ListKindConflict'')
   \<and> length (actions (snd (waitCRDReady 30 ''plans.platform.koli.io''
          (crdWorld (\<lambda>n. if n < 1 then [] else conflictConditions))))) = 2
   \<and> fst (waitCRDReady 30 ''plans.platform.koli.io'' (crdWorld (\<lambda>n. []))) = Some ErrWaitTimeout
   \<and> length (actions (snd (waitCRDReady 30 ''plans.platform.koli.io'' (crdWorld (\<lambda>n. []))))) = 30"
proof -
  let ?n = "''plans.platform.koli.io''"
  let ?w1 = "crdWorld (\<lambda>n. if n < 3 then [] else establishedConditions)"
  let ?w2 = "crdWorld (\<lambda>n. if n < 1 then [] else conflictConditions)"
  let ?w3 = "crdWorld (\<lambda>n. [])"
  have k1: "3 < allowedRuns 30" and k2: "1 < allowedRuns 30"
    by (simp_all add: allowedRuns_30)
  have u1: "\<forall>j<3. observe ?n ?w1 j = Inr False"
    by (simp add: observe_crdWorld)
  have d1: "observe ?n ?w1 3 = Inr True"
    by (simp add: observe_crdWorld establishedConditions_def Established_def NamesAccepted_def
        ConditionTrue_def ConditionFalse_def)
  have u2: "\<forall>j<1. observe ?n ?w2 j = Inr False"
    by (simp add: observe_crdWorld)
  have d2: "observe ?n ?w2 1 = Inl (Errorf ''Name conflict: ListKindConflict'')"
    by (simp add: observe_crdWorld conflictConditions_def Established_def NamesAccepted_def
        ConditionTrue_def ConditionFalse_def)
  have u3: "\<forall>j<allowedRuns 30. observe ?n ?w3 j = Inr False"
    by (simp add: observe_crdWorld)
  note T1 = crd_readiness_poll[where runs = 30 and name = ?n and w = ?w1]
  note T2 = crd_readiness_poll[where runs = 30 and name = ?n and w = ?w2]
  note T3 = crd_readiness_poll[where runs = 30 and name = ?n and w = ?w3]
  have R1: "fst (waitCRDReady 30 ?n ?w1) = None
     \<and> length (actions (snd (waitCRDReady 30 ?n ?w1))) = length (actions ?w1) + Suc 3"
    using T1 k1 u1 d1 by blast
  have R2: "fst (waitCRDReady 30 ?n ?w2) = Some (Errorf ''Name conflict: ListKindConflict'')
     \<and> length (actions (snd (waitCRDReady 30 ?n ?w2))) = length (actions ?w2) + Suc 1"
    using T2 k2 u2 d2 by blast
  have R3: "fst (waitCRDReady 30 ?n ?w3) = Some ErrWaitTimeout
     \<and> length (actions (snd (waitCRDReady 30 ?n ?w3))) = length (actions ?w3) + allowedRuns 30"
    using T3 u3 by blast
  show ?thesis
    using R1 R2 R3 by (simp add: actions_crdWorld allowedRuns_30)
qed

text \<open>
  C4 as it is stated fails when a read fails: the type is stored and none of its
  conditions is ever Established or NamesAccepted, so the claim has the poll go on until
  the timeout, yet the first read's error ends the poll after that one read, with an
  error that is not the timeout.
\<close>

theorem crd_readiness_poll_counterexample:
  "crdConditions ((crdWorld (\<lambda>n. []))
          \<lparr>reactor := (\<lambda>n a. Some (StatusError StatusReasonUnknown ''connection refused''))\<rparr>)
        ''plans.platform.koli.io'' 0 = []
   \<and> fst (waitCRDReady 30 ''plans.platform.koli.io''
          ((crdWorld (\<lambda>n. []))
             \<lparr>reactor := (\<lambda>n a. Some (StatusError StatusReasonUnknown ''connection refused''))\<rparr>))
       = Some (StatusError StatusReasonUnknown ''connection refused'')
   \<and> actions (snd (waitCRDReady 30 ''plans.platform.koli.io''
          ((crdWorld (\<lambda>n. []))
             \<lparr>reactor := (\<lambda>n a. Some (StatusError StatusReasonUnknown ''connection refused''))\<rparr>)))
       = [GetCustomResourceDefinition ''plans.platform.koli.io'']"
proof -
  let ?n = "''plans.platform.koli.io''"
  let ?w = "(crdWorld (\<lambda>n. []))
             \<lparr>reactor := (\<lambda>n a. Some (StatusError StatusReasonUnknown ''connection refused''))\<rparr>"
  have k: "0 < allowedRuns 30" by (simp add: allowedRuns_30)
  have u: "\<forall>j<0. observe ?n ?w j = Inr False" by simp
  have o: "observe ?n ?w 0 = Inl (StatusError StatusReasonUnknown ''connection refused'')"
    by (simp add: observe_def readAt_def)
  have r: "waitCRDReady 30 ?n ?w
      = (Some (StatusError StatusReasonUnknown ''connection refused''),
         (called (GetCustomResourceDefinition ?n) ^^ Suc 0) ?w)"
    using WaitFor_error[OF k u o] by (simp add: waitCRDReady_WaitFor)
  show ?thesis
    unfolding r by (simp add: called_def crdWorld_def emptyWorld_def)
qed

end
